theory Spec2Isabelle
  imports Complex_Main
begin

section \<open>Errors\<close>

text \<open>
  The exceptions of \<^verbatim>\<open>pyeo/core.py\<close> that the modelled functions raise themselves
  (\<^verbatim>\<open>StackImagesException\<close>, \<^verbatim>\<open>CreateNewStacksException\<close>, the plain
  \<^verbatim>\<open>Exception\<close> with its message), and the exceptions the Python interpreter and
  numpy raise inside them.
\<close>

datatype error =
    StackImagesException
  | CreateNewStacksException
  | Exception string
  | IndexError
  | ZeroDivisionError
  | AttributeError
  | UnboundLocalError
  | ValueError

section \<open>Rasters\<close>

text \<open>
  A geotransform is the 6-tuple \<^verbatim>\<open>gt\<close> of GDAL; \<open>gt0\<close> is \<^verbatim>\<open>gt[0]\<close> (the x of the
  top-left corner), \<open>gt1\<close> the pixel width, \<open>gt3\<close> the y of the top-left corner and
  \<open>gt5\<close> the pixel height (negative for a north-up raster).
\<close>

record geotransform =
  gt0 :: real
  gt1 :: real
  gt2 :: real
  gt3 :: real
  gt4 :: real
  gt5 :: real

text \<open>
  A \<^verbatim>\<open>gdal.Dataset\<close>: its sizes, which are never negative, its geotransform, its
  projection, and its pixels, read as \<open>pixels r band row col\<close> (GDAL's order is band,
  y, x).
\<close>

record raster =
  RasterXSize :: nat
  RasterYSize :: nat
  RasterCount :: nat
  GeoTransform :: geotransform
  Projection :: string
  pixels :: "nat \<Rightarrow> nat \<Rightarrow> nat \<Rightarrow> int"

text \<open>
  The file system is a map from paths to rasters; \<^verbatim>\<open>gdal.Open\<close> of a path that holds
  no raster returns \<^verbatim>\<open>None\<close>, and the first attribute read from it raises.
\<close>

type_synonym files = "string \<Rightarrow> raster option"

section \<open>The libraries the engine calls\<close>

text \<open>
  The engine computes on Python floats and on OGR geometries, and it lists directories.
  These are libraries outside the repository, so they are parameters of every function
  that uses them:
  \<^item> \<open>rnd\<close> is the rounding of one floating-point operation; an operation \<open>a - b\<close> of
    the source is \<open>rnd env (a - b)\<close>, the exact result rounded. Exact arithmetic is
    \<open>rnd = id\<close>;
  \<^item> the other fields are the OGR calls of the source, on a geometry type \<open>'g\<close>:
    \<open>Polygon\<close> builds the polygon of a linear ring of points (\<^verbatim>\<open>AddPoint\<close> on a
    \<^verbatim>\<open>wkbLinearRing\<close>, then \<^verbatim>\<open>AddGeometry\<close> on a \<^verbatim>\<open>wkbPolygon\<close>),
    \<open>GetEnvelope\<close> returns \<open>(minX, maxX, minY, maxY)\<close>, and \<open>truth\<close> is the truth
    value Python gives a geometry object in an \<^verbatim>\<open>if\<close>;
  \<^item> \<open>glob\<close> and \<open>listdir\<close> are \<^verbatim>\<open>glob.glob\<close> and \<^verbatim>\<open>os.listdir\<close> on the current
    file system.
\<close>

record 'g env =
  rnd :: "real \<Rightarrow> real"
  Polygon :: "(real \<times> real) list \<Rightarrow> 'g"
  Intersection :: "'g \<Rightarrow> 'g \<Rightarrow> 'g"
  Union_poly :: "'g \<Rightarrow> 'g \<Rightarrow> 'g"
  Difference :: "'g \<Rightarrow> 'g \<Rightarrow> 'g"
  Simplify :: "'g \<Rightarrow> real \<Rightarrow> 'g"
  Boundary :: "'g \<Rightarrow> 'g"
  GetEnvelope :: "'g \<Rightarrow> real \<times> real \<times> real \<times> real"
  GetArea :: "'g \<Rightarrow> real"
  GetX :: "'g \<Rightarrow> real"
  GetY :: "'g \<Rightarrow> real"
  CreateGeometryFromWkt :: "string \<Rightarrow> 'g option"
  truth :: "'g \<Rightarrow> bool"
  glob :: "files \<Rightarrow> string \<Rightarrow> string list"
  listdir :: "files \<Rightarrow> string \<Rightarrow> string list"

section \<open>Geometry kernel\<close>

text \<open>\<^verbatim>\<open>get_raster_bounds\<close>: the bounding rectangle of a raster, from its geotransform.\<close>

definition get_raster_bounds :: "'g env \<Rightarrow> raster \<Rightarrow> 'g" where
  "get_raster_bounds env raster =
     (let geotrans = GeoTransform raster;
          top_left_x = gt0 geotrans;
          top_left_y = gt3 geotrans;
          width = rnd env (gt1 geotrans * real (RasterXSize raster));
          height = rnd env (rnd env (gt5 geotrans * real (RasterYSize raster)) * (- 1))
      in Polygon env
           [(top_left_x, top_left_y),
            (rnd env (top_left_x + width), top_left_y),
            (rnd env (top_left_x + width), rnd env (top_left_y - height)),
            (top_left_x, rnd env (top_left_y - height)),
            (top_left_x, top_left_y)])"

text \<open>
  The point argument of \<^verbatim>\<open>point_to_pixel_coordinates\<close> is duck-typed: a WKT string, a
  list or tuple, an OGR geometry, or anything else.
\<close>

datatype 'g point = PointStr string | PointSeq "real list" | PointGeom 'g | PointOther

text \<open>
  The three \<^verbatim>\<open>isinstance\<close> blocks. A string that OGR cannot parse gives \<^verbatim>\<open>None\<close>,
  and \<^verbatim>\<open>None.GetX()\<close> raises; a sequence shorter than two raises on its index; any
  other object leaves \<^verbatim>\<open>x_geo\<close> unbound.
\<close>

definition point_xy :: "'g env \<Rightarrow> 'g point \<Rightarrow> error + (real \<times> real)" where
  "point_xy env point =
     (case point of
        PointStr s \<Rightarrow>
          (case CreateGeometryFromWkt env s of
             None \<Rightarrow> Inl AttributeError
           | Some g \<Rightarrow> Inr (GetX env g, GetY env g))
      | PointSeq p \<Rightarrow>
          (case p of
             x # y # _ \<Rightarrow> Inr (x, y)
           | _ \<Rightarrow> Inl IndexError)
      | PointGeom g \<Rightarrow> Inr (GetX env g, GetY env g)
      | PointOther \<Rightarrow> Inl UnboundLocalError)"

text \<open>
  \<^verbatim>\<open>point_to_pixel_coordinates\<close>. The parameter \<open>oob_fail\<close> is kept as the source has
  it. A geotransform is a tuple of Python floats, so a zero pixel size raises
  \<^verbatim>\<open>ZeroDivisionError\<close>.
\<close>

definition point_to_pixel_coordinates ::
  "'g env \<Rightarrow> raster \<Rightarrow> 'g point \<Rightarrow> bool \<Rightarrow> error + (int \<times> int)" where
  "point_to_pixel_coordinates env raster point oob_fail =
     (case point_xy env point of
        Inl e \<Rightarrow> Inl e
      | Inr (x_geo, y_geo) \<Rightarrow>
          (let gt = GeoTransform raster in
           if gt1 gt = 0 then Inl ZeroDivisionError
           else if gt5 gt = 0 then Inl ZeroDivisionError
           else Inr (\<lfloor>rnd env (rnd env (x_geo - gt0 gt) / gt1 gt)\<rfloor>,
                     \<lfloor>rnd env (rnd env (y_geo - gt3 gt) / gt5 gt)\<rfloor>)))"

text \<open>\<^verbatim>\<open>get_poly_intersection\<close>.\<close>

definition get_poly_intersection :: "'g env \<Rightarrow> 'g \<Rightarrow> 'g \<Rightarrow> 'g" where
  "get_poly_intersection env poly1 poly2 = Intersection env poly1 poly2"

text \<open>
  \<^verbatim>\<open>pixel_bounds_from_polygon\<close>: the pixel coordinates of the envelope of the
  intersection of a polygon with a raster, the two values of an axis swapped when the
  first is not below the second.
\<close>

definition pixel_bounds_from_polygon ::
  "'g env \<Rightarrow> raster \<Rightarrow> 'g \<Rightarrow> error + (int \<times> int \<times> int \<times> int)" where
  "pixel_bounds_from_polygon env raster polygon =
     (let raster_bounds = get_raster_bounds env raster;
          intersection = get_poly_intersection env raster_bounds polygon;
          bounds_geo = Boundary env intersection
      in case GetEnvelope env bounds_geo of
           (x_min_geo, x_max_geo, y_min_geo, y_max_geo) \<Rightarrow>
             (case point_to_pixel_coordinates env raster (PointSeq [x_min_geo, y_min_geo]) False of
                Inl e \<Rightarrow> Inl e
              | Inr (x_min_pixel, y_min_pixel) \<Rightarrow>
                  (case point_to_pixel_coordinates env raster (PointSeq [x_max_geo, y_max_geo]) False of
                     Inl e \<Rightarrow> Inl e
                   | Inr (x_max_pixel, y_max_pixel) \<Rightarrow>
                       (let (x_min_pixel, x_max_pixel) =
                              (if x_min_pixel \<ge> x_max_pixel then (x_max_pixel, x_min_pixel)
                               else (x_min_pixel, x_max_pixel));
                            (y_min_pixel, y_max_pixel) =
                              (if y_min_pixel \<ge> y_max_pixel then (y_max_pixel, y_min_pixel)
                               else (y_min_pixel, y_max_pixel))
                        in Inr (x_min_pixel, x_max_pixel, y_min_pixel, y_max_pixel)))))"

text \<open>
  \<^verbatim>\<open>multiple_union\<close> and \<^verbatim>\<open>multiple_intersection\<close>: both start from
  \<^verbatim>\<open>polygons[0]\<close>, fold the rest from the left and simplify the result.
\<close>

definition multiple_union :: "'g env \<Rightarrow> 'g list \<Rightarrow> error + 'g" where
  "multiple_union env polygons =
     (case polygons of
        [] \<Rightarrow> Inl IndexError
      | running_union # rest \<Rightarrow> Inr (Simplify env (foldl (Union_poly env) running_union rest) 0))"

definition multiple_intersection :: "'g env \<Rightarrow> 'g list \<Rightarrow> error + 'g" where
  "multiple_intersection env polygons =
     (case polygons of
        [] \<Rightarrow> Inl IndexError
      | running_intersection # rest \<Rightarrow>
          Inr (Simplify env (foldl (Intersection env) running_intersection rest) 0))"

text \<open>\<^verbatim>\<open>get_combined_polygon\<close>.\<close>

definition get_combined_polygon :: "'g env \<Rightarrow> raster list \<Rightarrow> string \<Rightarrow> error + 'g" where
  "get_combined_polygon env rasters geometry_mode =
     (let raster_bounds = map (get_raster_bounds env) rasters
      in if geometry_mode = ''intersect'' then multiple_intersection env raster_bounds
         else if geometry_mode = ''union'' then multiple_union env raster_bounds
         else Inl (Exception ''Invalid geometry mode''))"

section \<open>numpy arrays\<close>

text \<open>
  An array is its shape and its items, read by an index list as long as the shape. The
  engine uses basic slicing \<^verbatim>\<open>a[i:j, k:l, ...]\<close> with step 1, which gives a view of
  the array, \<^verbatim>\<open>np.expand_dims(a, 0)\<close>, \<^verbatim>\<open>np.copyto\<close> into a view, and the
  elementwise \<^verbatim>\<open>np.bitwise_or\<close> and \<^verbatim>\<open>np.bitwise_and\<close>, which broadcast.
\<close>

unbundle bit_operations_syntax

record ndarray =
  shape :: "nat list"
  item :: "nat list \<Rightarrow> int"

text \<open>
  A Python slice \<^verbatim>\<open>i:j\<close> on an axis of length \<open>n\<close>: a negative bound counts from the
  end, both bounds are clipped to the axis. The result is the first index and the length.
\<close>

definition slice_bounds :: "nat \<Rightarrow> int \<times> int \<Rightarrow> nat \<times> nat" where
  "slice_bounds n s =
     (let norm = (\<lambda>i. if i < 0 then max (i + int n) 0 else min i (int n));
          lo = norm (fst s);
          hi = norm (snd s)
      in (nat lo, nat (hi - lo)))"

text \<open>The window of a list of slices: the axes without a slice are taken whole.\<close>

definition window :: "nat list \<Rightarrow> (int \<times> int) list \<Rightarrow> (nat \<times> nat) list" where
  "window sh slices =
     map2 slice_bounds (take (length slices) sh) slices
       @ map (\<lambda>n. (0, n)) (drop (length slices) sh)"

definition in_window :: "(nat \<times> nat) list \<Rightarrow> nat list \<Rightarrow> bool" where
  "in_window win idx = list_all2 (\<lambda>w i. fst w \<le> i \<and> i < fst w + snd w) win idx"

text \<open>\<^verbatim>\<open>a[slices]\<close>; more slices than axes is numpy's \<^verbatim>\<open>IndexError\<close>.\<close>

definition getitem :: "ndarray \<Rightarrow> (int \<times> int) list \<Rightarrow> error + ndarray" where
  "getitem a slices =
     (if length slices > length (shape a) then Inl IndexError
      else let win = window (shape a) slices
           in Inr \<lparr>shape = map snd win,
                   item = (\<lambda>idx. item a (map2 (\<lambda>w i. fst w + i) win idx))\<rparr>)"

definition expand_dims0 :: "ndarray \<Rightarrow> ndarray" where
  "expand_dims0 a = \<lparr>shape = 1 # shape a, item = (\<lambda>idx. item a (tl idx))\<rparr>"

text \<open>
  Broadcasting, on the reversed shapes: two axes are compatible when they are equal or
  one of them is 1; a shorter shape is extended at the front.
\<close>

fun broadcast_rev :: "nat list \<Rightarrow> nat list \<Rightarrow> nat list option" where
  "broadcast_rev [] ys = Some ys"
| "broadcast_rev xs [] = Some xs"
| "broadcast_rev (x # xs) (y # ys) =
     (if x = y \<or> y = 1 then map_option ((#) x) (broadcast_rev xs ys)
      else if x = 1 then map_option ((#) y) (broadcast_rev xs ys)
      else None)"

definition broadcast_shapes :: "nat list \<Rightarrow> nat list \<Rightarrow> nat list option" where
  "broadcast_shapes s1 s2 = map_option rev (broadcast_rev (rev s1) (rev s2))"

text \<open>The index into an operand of shape \<open>sh\<close> that an index of the broadcast result reads.\<close>

definition bidx :: "nat list \<Rightarrow> nat list \<Rightarrow> nat list" where
  "bidx sh idx = map2 (\<lambda>s i. if s = 1 then 0 else i) sh (drop (length idx - length sh) idx)"

definition elementwise :: "(int \<Rightarrow> int \<Rightarrow> int) \<Rightarrow> ndarray \<Rightarrow> ndarray \<Rightarrow> error + ndarray" where
  "elementwise f a b =
     (case broadcast_shapes (shape a) (shape b) of
        None \<Rightarrow> Inl ValueError
      | Some sh \<Rightarrow>
          Inr \<lparr>shape = sh,
               item = (\<lambda>idx. f (item a (bidx (shape a) idx)) (item b (bidx (shape b) idx)))\<rparr>)"

definition bitwise_or :: "ndarray \<Rightarrow> ndarray \<Rightarrow> error + ndarray" where
  "bitwise_or a b = elementwise (\<lambda>x y. x OR y) a b"

definition bitwise_and :: "ndarray \<Rightarrow> ndarray \<Rightarrow> error + ndarray" where
  "bitwise_and a b = elementwise (\<lambda>x y. x AND y) a b"

text \<open>
  \<^verbatim>\<open>np.copyto(a[slices], src)\<close>: \<^verbatim>\<open>a[slices]\<close> is a view, so the items of \<open>a\<close> inside
  the window are overwritten with the items of \<open>src\<close>, broadcast to the shape of the
  view; a \<open>src\<close> that does not broadcast to it is numpy's \<^verbatim>\<open>ValueError\<close>.
\<close>

definition copyto_slices :: "ndarray \<Rightarrow> (int \<times> int) list \<Rightarrow> ndarray \<Rightarrow> error + ndarray" where
  "copyto_slices a slices src =
     (if length slices > length (shape a) then Inl IndexError
      else let win = window (shape a) slices
           in if broadcast_shapes (shape src) (map snd win) \<noteq> Some (map snd win)
              then Inl ValueError
              else Inr (a\<lparr>item :=
                     (\<lambda>idx. if in_window win idx
                            then item src (bidx (shape src) (map2 (\<lambda>w i. i - fst w) win idx))
                            else item a idx)\<rparr>))"

text \<open>
  \<^verbatim>\<open>GetVirtualMemArray\<close>: the pixels of a raster as an array of shape (bands, y, x), or
  (y, x) when the raster has one band.
\<close>

definition GetVirtualMemArray :: "raster \<Rightarrow> ndarray" where
  "GetVirtualMemArray r =
     (if RasterCount r = 1
      then \<lparr>shape = [RasterYSize r, RasterXSize r],
            item = (\<lambda>idx. case idx of [y, x] \<Rightarrow> pixels r 0 y x | _ \<Rightarrow> 0)\<rparr>
      else \<lparr>shape = [RasterCount r, RasterYSize r, RasterXSize r],
            item = (\<lambda>idx. case idx of [b, y, x] \<Rightarrow> pixels r b y x | _ \<Rightarrow> 0)\<rparr>)"

text \<open>The pixels a raster has once the array of its memory map holds \<open>a\<close>.\<close>

definition written :: "raster \<Rightarrow> ndarray \<Rightarrow> raster" where
  "written r a =
     r\<lparr>pixels := (\<lambda>b y x. if length (shape a) = 2 then item a [y, x] else item a [b, y, x])\<rparr>"

section \<open>Creating the output raster\<close>

text \<open>Python's \<^verbatim>\<open>int\<close> of a float truncates toward zero.\<close>

definition py_int :: "real \<Rightarrow> int" where
  "py_int v = (if v \<ge> 0 then \<lfloor>v\<rfloor> else \<lceil>v\<rceil>)"

text \<open>
  \<^verbatim>\<open>driver.Create(out_path, xsize, ysize, bands, eType)\<close> of GDAL's GTiff driver, the
  format the engine uses: a raster of the sizes asked for, with GDAL's default
  geotransform, no projection and every pixel 0. The driver refuses a width, height or
  band count below 1 and returns \<^verbatim>\<open>None\<close>.
\<close>

definition driver_Create :: "int \<Rightarrow> int \<Rightarrow> int \<Rightarrow> raster option" where
  "driver_Create xsize ysize bands =
     (if xsize < 1 \<or> ysize < 1 \<or> bands < 1 then None
      else Some \<lparr>RasterXSize = nat xsize, RasterYSize = nat ysize, RasterCount = nat bands,
                 GeoTransform = \<lparr>gt0 = 0, gt1 = 1, gt2 = 0, gt3 = 0, gt4 = 0, gt5 = 1\<rparr>,
                 Projection = [], pixels = (\<lambda>b y x. 0)\<rparr>)"

text \<open>
  \<^verbatim>\<open>create_new_image_from_polygon\<close>: an empty raster of the extent of the polygon's
  envelope. A \<^verbatim>\<open>None\<close> from the driver raises at \<^verbatim>\<open>out_raster.SetGeoTransform\<close>.
\<close>

definition create_new_image_from_polygon ::
  "'g env \<Rightarrow> 'g \<Rightarrow> real \<Rightarrow> real \<Rightarrow> int \<Rightarrow> string \<Rightarrow> error + raster" where
  "create_new_image_from_polygon env polygon x_res y_res bands projection =
     (case GetEnvelope env polygon of
        (bounds_x_min, bounds_x_max, bounds_y_min, bounds_y_max) \<Rightarrow>
          if x_res = 0 then Inl ZeroDivisionError
          else if y_res = 0 then Inl ZeroDivisionError
          else
            (let final_width_pixels = py_int (rnd env (rnd env (bounds_x_max - bounds_x_min) / x_res));
                 final_height_pixels = py_int (rnd env (rnd env (bounds_y_max - bounds_y_min) / y_res))
             in case driver_Create final_width_pixels final_height_pixels bands of
                  None \<Rightarrow> Inl AttributeError
                | Some out_raster \<Rightarrow>
                    Inr (out_raster
                          \<lparr>GeoTransform :=
                              \<lparr>gt0 = bounds_x_min, gt1 = x_res, gt2 = 0,
                               gt3 = bounds_y_max, gt4 = 0, gt5 = rnd env (y_res * (- 1))\<rparr>,
                           Projection := projection\<rparr>)))"

section \<open>Stacking\<close>

text \<open>\<^verbatim>\<open>[gdal.Open(path) for path in paths]\<close>, read by the code that follows it.\<close>

fun gdal_Open_all :: "files \<Rightarrow> string list \<Rightarrow> error + raster list" where
  "gdal_Open_all fs [] = Inr []"
| "gdal_Open_all fs (p # ps) =
     (case fs p of
        None \<Rightarrow> Inl AttributeError
      | Some r \<Rightarrow> (case gdal_Open_all fs ps of Inl e \<Rightarrow> Inl e | Inr rs \<Rightarrow> Inr (r # rs)))"

text \<open>
  The loop of \<^verbatim>\<open>stack_images\<close> over the input rasters; its state is the array of the
  output raster and \<open>present_layer\<close>.
\<close>

fun stack_loop ::
  "'g env \<Rightarrow> raster \<Rightarrow> 'g \<Rightarrow> raster list \<Rightarrow> ndarray \<Rightarrow> int \<Rightarrow> error + ndarray" where
  "stack_loop env out_raster combined_polygons [] out_raster_array present_layer =
     Inr out_raster_array"
| "stack_loop env out_raster combined_polygons (in_raster # rest) out_raster_array present_layer =
     (let in_raster_array = GetVirtualMemArray in_raster in
      case pixel_bounds_from_polygon env out_raster combined_polygons of
        Inl e \<Rightarrow> Inl e
      | Inr (out_x_min, out_x_max, out_y_min, out_y_max) \<Rightarrow>
      (case pixel_bounds_from_polygon env in_raster combined_polygons of
        Inl e \<Rightarrow> Inl e
      | Inr (in_x_min, in_x_max, in_y_min, in_y_max) \<Rightarrow>
      (let in_raster_array =
             (if length (shape in_raster_array) = 2 then expand_dims0 in_raster_array
              else in_raster_array);
           out_slices = [(present_layer, present_layer + int (RasterCount in_raster)),
                         (out_y_min, out_y_max), (out_x_min, out_x_max)]
       in if length out_slices > length (shape out_raster_array) then Inl IndexError
          else
      (case getitem in_raster_array
              [(0, int (RasterCount in_raster)), (in_y_min, in_y_max), (in_x_min, in_x_max)] of
        Inl e \<Rightarrow> Inl e
      | Inr in_raster_view \<Rightarrow>
      (case copyto_slices out_raster_array out_slices in_raster_view of
        Inl e \<Rightarrow> Inl e
      | Inr out_raster_array' \<Rightarrow>
          stack_loop env out_raster combined_polygons rest out_raster_array'
            (present_layer + int (RasterCount in_raster)))))))"

text \<open>
  \<^verbatim>\<open>stack_images\<close>. The result is the file system with the stacked raster at
  \<open>out_raster_path\<close>. The format and the datatype of the output do not enter the model.
\<close>

definition stack_images ::
  "'g env \<Rightarrow> files \<Rightarrow> string list \<Rightarrow> string \<Rightarrow> string \<Rightarrow> error + files" where
  "stack_images env fs raster_paths out_raster_path geometry_mode =
     (if length raster_paths \<le> 1 then Inl StackImagesException
      else case gdal_Open_all fs raster_paths of
        Inl e \<Rightarrow> Inl e
      | Inr rasters \<Rightarrow>
      (let total_layers = sum_list (map RasterCount rasters);
           projection = Projection (hd rasters);
           in_gt = GeoTransform (hd rasters);
           x_res = gt1 in_gt;
           y_res = rnd env (gt5 in_gt * (- 1))
       in case get_combined_polygon env rasters geometry_mode of
        Inl e \<Rightarrow> Inl e
      | Inr combined_polygons \<Rightarrow>
      (case create_new_image_from_polygon env combined_polygons x_res y_res (int total_layers)
              projection of
        Inl e \<Rightarrow> Inl e
      | Inr out_raster \<Rightarrow>
      (case stack_loop env out_raster combined_polygons rasters (GetVirtualMemArray out_raster) 0 of
        Inl e \<Rightarrow> Inl e
      | Inr out_raster_array \<Rightarrow>
          Inr (fs(out_raster_path \<mapsto> written out_raster out_raster_array))))))"

text \<open>
  The array of an input raster as the loop of \<^verbatim>\<open>stack_images\<close> reads it: always of
  three axes, a raster of one band expanded by \<^verbatim>\<open>np.expand_dims\<close>.
\<close>

abbreviation in_array :: "raster \<Rightarrow> ndarray" where
  "in_array r \<equiv>
     (if length (shape (GetVirtualMemArray r)) = 2 then expand_dims0 (GetVirtualMemArray r)
      else GetVirtualMemArray r)"

section \<open>Combining masks\<close>

text \<open>
  The loop of \<^verbatim>\<open>combine_masks\<close>. \<^verbatim>\<open>np.bitwise_or\<close> and \<^verbatim>\<open>np.bitwise_and\<close> return
  a new array, which the source binds to the local name \<open>out_mask_view\<close>; the array of
  the output raster is the state of the loop. The source compares \<open>combination_func\<close>
  with \<^verbatim>\<open>is\<close>, which holds for the literals a caller writes. The message of the
  exception is shortened.
\<close>

fun combine_loop ::
  "'g env \<Rightarrow> raster \<Rightarrow> 'g \<Rightarrow> string \<Rightarrow> raster list \<Rightarrow> ndarray \<Rightarrow> error + ndarray" where
  "combine_loop env out_mask combined_polygon combination_func [] out_mask_array =
     Inr out_mask_array"
| "combine_loop env out_mask combined_polygon combination_func (in_mask # rest) out_mask_array =
     (let in_mask_array = GetVirtualMemArray in_mask in
      case pixel_bounds_from_polygon env out_mask combined_polygon of
        Inl e \<Rightarrow> Inl e
      | Inr (out_x_min, out_x_max, out_y_min, out_y_max) \<Rightarrow>
      (case pixel_bounds_from_polygon env in_mask combined_polygon of
        Inl e \<Rightarrow> Inl e
      | Inr (in_x_min, in_x_max, in_y_min, in_y_max) \<Rightarrow>
      (case getitem out_mask_array [(out_y_min, out_y_max), (out_x_min, out_x_max)] of
        Inl e \<Rightarrow> Inl e
      | Inr out_mask_view \<Rightarrow>
      (case getitem in_mask_array [(in_y_min, in_y_max), (in_x_min, in_x_max)] of
        Inl e \<Rightarrow> Inl e
      | Inr in_mask_view \<Rightarrow>
      (case (if combination_func = ''or'' then bitwise_or out_mask_view in_mask_view
             else if combination_func = ''and'' then bitwise_and out_mask_view in_mask_view
             else Inl (Exception ''Invalid combination_func'')) of
        Inl e \<Rightarrow> Inl e
      | Inr out_mask_view \<Rightarrow>
          combine_loop env out_mask combined_polygon combination_func rest out_mask_array)))))"

text \<open>
  \<^verbatim>\<open>combine_masks\<close>. The result is the file system with the output mask at \<open>out_path\<close>.
\<close>

definition combine_masks ::
  "'g env \<Rightarrow> files \<Rightarrow> string list \<Rightarrow> string \<Rightarrow> string \<Rightarrow> string \<Rightarrow> error + files" where
  "combine_masks env fs mask_paths out_path combination_func geometry_func =
     (case gdal_Open_all fs mask_paths of
        Inl e \<Rightarrow> Inl e
      | Inr masks \<Rightarrow>
      (case get_combined_polygon env masks geometry_func of
        Inl e \<Rightarrow> Inl e
      | Inr combined_polygon \<Rightarrow>
      (let gt = GeoTransform (hd masks);
           x_res = gt1 gt;
           y_res = rnd env (gt5 gt * (- 1));
           bands = 1;
           projection = Projection (hd masks)
       in case create_new_image_from_polygon env combined_polygon x_res y_res bands projection of
        Inl e \<Rightarrow> Inl e
      | Inr out_mask \<Rightarrow>
      (case combine_loop env out_mask combined_polygon combination_func masks
              (GetVirtualMemArray out_mask) of
        Inl e \<Rightarrow> Inl e
      | Inr out_mask_array \<Rightarrow> Inr (fs(out_path \<mapsto> written out_mask out_mask_array))))))"

section \<open>Paths and timestamps\<close>

text \<open>\<^verbatim>\<open>os.path.join\<close>, \<^verbatim>\<open>os.path.basename\<close> and \<^verbatim>\<open>os.path.dirname\<close> on POSIX paths.\<close>

definition path_join :: "string \<Rightarrow> string \<Rightarrow> string" where
  "path_join a b =
     (if b \<noteq> [] \<and> hd b = CHR ''/'' then b
      else if a = [] \<or> last a = CHR ''/'' then a @ b
      else a @ ''/'' @ b)"

definition basename :: "string \<Rightarrow> string" where
  "basename p = rev (takeWhile (\<lambda>c. c \<noteq> CHR ''/'') (rev p))"

definition dirname :: "string \<Rightarrow> string" where
  "dirname p =
     (let head = rev (dropWhile (\<lambda>c. c \<noteq> CHR ''/'') (rev p))
      in if head \<noteq> [] \<and> \<not> list_all (\<lambda>c. c = CHR ''/'') head
         then rev (dropWhile (\<lambda>c. c = CHR ''/'') (rev head))
         else head)"

text \<open>\<^verbatim>\<open>get_mask_path\<close>; \<^verbatim>\<open>image_name.rsplit('.')[0]\<close> is the name up to its first dot.\<close>

definition get_mask_path :: "string \<Rightarrow> string" where
  "get_mask_path image_path =
     (let image_name = basename image_path;
          image_dir = dirname image_path;
          mask_name = takeWhile (\<lambda>c. c \<noteq> CHR ''.'') image_name @ ''.msk''
      in path_join image_dir mask_name)"

text \<open>
  \<^verbatim>\<open>get_sen_2_image_timestamp\<close>: the leftmost match of the regular expression
  \<^verbatim>\<open>\d{8}T\d{6}\<close>; without a match \<^verbatim>\<open>re.search\<close> returns \<^verbatim>\<open>None\<close> and
  \<^verbatim>\<open>ts_result.group\<close> raises.
\<close>

definition is_digit :: "char \<Rightarrow> bool" where
  "is_digit c = (c \<in> set ''0123456789'')"

definition timestamp_matches :: "string \<Rightarrow> bool" where
  "timestamp_matches s =
     (length s \<ge> 15 \<and> list_all is_digit (take 8 s) \<and> s ! 8 = CHR ''T''
        \<and> list_all is_digit (take 6 (drop 9 s)))"

fun re_search_timestamp :: "string \<Rightarrow> string option" where
  "re_search_timestamp [] = None"
| "re_search_timestamp (c # cs) =
     (if timestamp_matches (c # cs) then Some (take 15 (c # cs)) else re_search_timestamp cs)"

definition get_sen_2_image_timestamp :: "string \<Rightarrow> error + string" where
  "get_sen_2_image_timestamp image_name =
     (case re_search_timestamp image_name of
        None \<Rightarrow> Inl AttributeError
      | Some ts \<Rightarrow> Inr ts)"

text \<open>
  \<^verbatim>\<open>get_image_acquisition_time\<close>: \<^verbatim>\<open>strptime\<close> with the format
  \<^verbatim>\<open>%Y%m%dT%H%M%S\<close> on the 15 characters of a timestamp. The result stands for the
  \<^verbatim>\<open>datetime\<close>: the number its fourteen digits write, which orders timestamps as
  \<^verbatim>\<open>datetime\<close> orders them. A timestamp that is no date raises \<^verbatim>\<open>ValueError\<close>.
\<close>

definition digit_val :: "char \<Rightarrow> nat" where
  "digit_val c = of_char c - 48"

definition number_of :: "string \<Rightarrow> nat" where
  "number_of s = foldl (\<lambda>n c. 10 * n + digit_val c) 0 s"

definition days_in_month :: "nat \<Rightarrow> nat \<Rightarrow> nat" where
  "days_in_month y m =
     (if m = 2 then (if y mod 4 = 0 \<and> (y mod 100 \<noteq> 0 \<or> y mod 400 = 0) then 29 else 28)
      else if m \<in> {4, 6, 9, 11} then 30 else 31)"

definition strptime :: "string \<Rightarrow> error + nat" where
  "strptime ts =
     (let Y = number_of (take 4 ts);
          m = number_of (take 2 (drop 4 ts));
          d = number_of (take 2 (drop 6 ts));
          H = number_of (take 2 (drop 9 ts));
          M = number_of (take 2 (drop 11 ts));
          S = number_of (take 2 (drop 13 ts))
      in if 1 \<le> Y \<and> 1 \<le> m \<and> m \<le> 12 \<and> 1 \<le> d \<and> d \<le> days_in_month Y m
            \<and> H \<le> 23 \<and> M \<le> 59 \<and> S \<le> 59
         then Inr (number_of (take 8 ts @ drop 9 ts))
         else Inl ValueError)"

definition get_image_acquisition_time :: "string \<Rightarrow> error + nat" where
  "get_image_acquisition_time image_name =
     (case get_sen_2_image_timestamp image_name of
        Inl e \<Rightarrow> Inl e
      | Inr ts \<Rightarrow> strptime ts)"

text \<open>
  \<^verbatim>\<open>sort_by_timestamp\<close>: \<^verbatim>\<open>list.sort\<close> computes the key of every element first, so
  the first name without a valid timestamp raises; it then sorts stably, and with
  \<^verbatim>\<open>reverse=True\<close> the newest comes first and equal keys keep their order.
\<close>

fun acquisition_times :: "string list \<Rightarrow> error + (nat \<times> string) list" where
  "acquisition_times [] = Inr []"
| "acquisition_times (x # xs) =
     (case get_image_acquisition_time x of
        Inl e \<Rightarrow> Inl e
      | Inr k \<Rightarrow> (case acquisition_times xs of Inl e \<Rightarrow> Inl e | Inr ks \<Rightarrow> Inr ((k, x) # ks)))"

definition sort_by_timestamp :: "string list \<Rightarrow> error + string list" where
  "sort_by_timestamp strings =
     (case acquisition_times strings of
        Inl e \<Rightarrow> Inl e
      | Inr keyed \<Rightarrow> Inr (map snd (rev (sort_key fst (rev keyed)))))"

section \<open>Incremental cover selection\<close>

text \<open>
  \<^verbatim>\<open>stack_old_and_new_images\<close>: the stack of an old and a new image and, with
  \<open>create_combined_mask\<close>, the combination of their masks. The result is the file system
  and the path of the stack.
\<close>

definition stack_old_and_new_images ::
  "'g env \<Rightarrow> files \<Rightarrow> string \<Rightarrow> string \<Rightarrow> string \<Rightarrow> bool \<Rightarrow> error + (files \<times> string)" where
  "stack_old_and_new_images env fs old_image_path new_image_path out_dir create_combined_mask =
     (case get_sen_2_image_timestamp (basename old_image_path) of
        Inl e \<Rightarrow> Inl e
      | Inr old_timestamp \<Rightarrow>
      (case get_sen_2_image_timestamp (basename new_image_path) of
        Inl e \<Rightarrow> Inl e
      | Inr new_timestamp \<Rightarrow>
      (let out_path = path_join out_dir (old_timestamp @ ''_'' @ new_timestamp)
       in case stack_images env fs [old_image_path, new_image_path] (out_path @ ''.tif'')
                 ''intersect'' of
        Inl e \<Rightarrow> Inl e
      | Inr fs' \<Rightarrow>
          if create_combined_mask
          then (let out_mask_path = out_path @ ''.msk'';
                    old_mask_path = get_mask_path old_image_path;
                    new_mask_path = get_mask_path new_image_path
                in case combine_masks env fs' [old_mask_path, new_mask_path] out_mask_path
                          ''or'' ''intersect'' of
                     Inl e \<Rightarrow> Inl e
                   | Inr fs'' \<Rightarrow> Inr (fs'', out_path @ ''.tif''))
          else Inr (fs', out_path @ ''.tif''))))"

text \<open>
  The first loop of \<^verbatim>\<open>create_new_stacks\<close>, over the images older than the latest:
  its state is \<open>new_data_poly\<close> and \<open>to_be_stacked\<close>.
\<close>

fun cover_loop ::
  "'g env \<Rightarrow> files \<Rightarrow> int \<Rightarrow> string list \<Rightarrow> 'g \<Rightarrow> string list \<Rightarrow> error + string list" where
  "cover_loop env fs threshold [] new_data_poly to_be_stacked = Inr to_be_stacked"
| "cover_loop env fs threshold (file # rest) new_data_poly to_be_stacked =
     (case fs file of
        None \<Rightarrow> Inl AttributeError
      | Some img \<Rightarrow>
          (let image_poly = get_raster_bounds env img in
           if truth env (Intersection env image_poly new_data_poly)
           then (let to_be_stacked = to_be_stacked @ [file];
                     new_data_poly = Difference env new_data_poly image_poly
                 in if GetArea env new_data_poly < of_int threshold then Inr to_be_stacked
                    else cover_loop env fs threshold rest new_data_poly to_be_stacked)
           else cover_loop env fs threshold rest new_data_poly to_be_stacked))"

text \<open>The second loop: a stack for every selected image, until one is listed in \<open>stack_dir\<close>.\<close>

fun stack_loop_new ::
  "'g env \<Rightarrow> string \<Rightarrow> string \<Rightarrow> string list \<Rightarrow> files \<Rightarrow> string list
     \<Rightarrow> error + (files \<times> string list)" where
  "stack_loop_new env latest_image_path stack_dir [] fs new_images = Inr (fs, new_images)"
| "stack_loop_new env latest_image_path stack_dir (img # rest) fs new_images =
     (if img \<in> set (listdir env fs stack_dir) then Inr (fs, new_images)
      else case stack_old_and_new_images env fs img latest_image_path stack_dir True of
             Inl e \<Rightarrow> Inl e
           | Inr (fs', new_image) \<Rightarrow>
               stack_loop_new env latest_image_path stack_dir rest fs' (new_images @ [new_image]))"

text \<open>
  \<^verbatim>\<open>create_new_stacks\<close>. The result is the file system and \<open>new_images\<close>.
\<close>

definition create_new_stacks ::
  "'g env \<Rightarrow> files \<Rightarrow> string \<Rightarrow> string \<Rightarrow> int \<Rightarrow> error + (files \<times> string list)" where
  "create_new_stacks env fs image_dir stack_dir threshold =
     (let safe_files = glob env fs (path_join image_dir ''*.gtif'')
      in if length safe_files = 0 then Inl CreateNewStacksException
         else case sort_by_timestamp safe_files of
           Inl e \<Rightarrow> Inl e
         | Inr safe_files \<Rightarrow>
         (case safe_files of
           [] \<Rightarrow> Inl IndexError
         | latest_image_path # older \<Rightarrow>
         (case fs latest_image_path of
           None \<Rightarrow> Inl AttributeError
         | Some latest_image \<Rightarrow>
         (let new_data_poly = get_raster_bounds env latest_image
          in case cover_loop env fs threshold older new_data_poly [] of
           Inl e \<Rightarrow> Inl e
         | Inr to_be_stacked \<Rightarrow>
             stack_loop_new env latest_image_path stack_dir to_be_stacked fs []))))"

section \<open>Pixel to geographic coordinates\<close>

text \<open>
  Modelled from the spec: the source has no function from pixel to geographic
  coordinates. The spec's \<open>geoOf\<close> is the map of its data model, a geotransform
  \<open>(originX, pixelWidth, rowRotation, originY, colRotation, pixelHeight)\<close> "mapping pixel
  (col,row) to geographic (x,y)": \<open>x = originX + col * pixelWidth + row * rowRotation\<close>
  and \<open>y = originY + col * colRotation + row * pixelHeight\<close>, computed in floats from
  left to right.
\<close>

definition geoOf :: "'g env \<Rightarrow> geotransform \<Rightarrow> int \<times> int \<Rightarrow> real \<times> real" where
  "geoOf env gt p =
     (let c = of_int (fst p); r = of_int (snd p)
      in (rnd env (rnd env (gt0 gt + rnd env (c * gt1 gt)) + rnd env (r * gt2 gt)),
          rnd env (rnd env (gt3 gt + rnd env (c * gt4 gt)) + rnd env (r * gt5 gt))))"

section \<open>Python floats\<close>

text \<open>
  A Python float is an IEEE 754 binary64 number, and an arithmetic operation returns the
  exact result rounded to the nearest such number, ties to the even significand.
  \<open>binary64\<close> is this rounding on the reals whose magnitude is below \<open>2 ^ 1024\<close>
  (infinities and NaN are not modelled): the result is a multiple of \<open>pow2 e\<close> with a
  significand below \<open>2 ^ 53\<close>, where \<open>e\<close> is at least \<open>-1074\<close>, the exponent of the
  subnormal numbers.
\<close>

definition pow2 :: "int \<Rightarrow> real" where
  "pow2 e = (if e \<ge> 0 then 2 ^ nat e else 1 / 2 ^ nat (- e))"

definition round_half_even :: "real \<Rightarrow> int" where
  "round_half_even x =
     (let f = \<lfloor>x\<rfloor>; d = x - of_int f
      in if d < 1 / 2 then f
         else if 1 / 2 < d then f + 1
         else if even f then f else f + 1)"

function exponent_down :: "int \<Rightarrow> real \<Rightarrow> int" where
  "exponent_down e x =
     (if - 1074 < e \<and> \<bar>x\<bar> < pow2 (e + 52) then exponent_down (e - 1) x else e)"
  by pat_completeness auto
termination
  by (relation "measure (\<lambda>(e, x). nat (e + 1074))") auto

function exponent_up :: "int \<Rightarrow> real \<Rightarrow> int" where
  "exponent_up e x =
     (if e < 971 \<and> pow2 (e + 53) \<le> \<bar>x\<bar> then exponent_up (e + 1) x else e)"
  by pat_completeness auto
termination
  by (relation "measure (\<lambda>(e, x). nat (971 - e))") auto

definition binary64 :: "real \<Rightarrow> real" where
  "binary64 x =
     (if x = 0 then 0
      else let e = exponent_up (exponent_down 0 x) x
           in of_int (round_half_even (x / pow2 e)) * pow2 e)"

section \<open>A geometry of boxes\<close>

text \<open>
  A geometry on which the engine can be evaluated: a finite union of closed axis-aligned
  boxes \<open>(x0, x1, y0, y1)\<close>, the footprints of north-up rasters and what intersection,
  union and difference make of them. The empty list is the empty geometry, whose envelope
  OGR gives as four zeros.
\<close>

type_synonym box = "real \<times> real \<times> real \<times> real"

definition box_inter :: "box \<Rightarrow> box \<Rightarrow> box list" where
  "box_inter a b =
     (case a of (ax0, ax1, ay0, ay1) \<Rightarrow> case b of (bx0, bx1, by0, by1) \<Rightarrow>
        (let x0 = max ax0 bx0; x1 = min ax1 bx1; y0 = max ay0 by0; y1 = min ay1 by1
         in if x0 \<le> x1 \<and> y0 \<le> y1 then [(x0, x1, y0, y1)] else []))"

definition boxes_Intersection :: "box list \<Rightarrow> box list \<Rightarrow> box list" where
  "boxes_Intersection A B = concat (map (\<lambda>a. concat (map (box_inter a) B)) A)"

text \<open>The closure of a box without another one, in at most four boxes.\<close>

definition box_minus :: "box \<Rightarrow> box \<Rightarrow> box list" where
  "box_minus a b =
     (case a of (ax0, ax1, ay0, ay1) \<Rightarrow> case b of (bx0, bx1, by0, by1) \<Rightarrow>
        (let mx0 = max ax0 bx0; mx1 = min ax1 bx1; my0 = max ay0 by0; my1 = min ay1 by1
         in if mx0 < mx1 \<and> my0 < my1
            then filter (\<lambda>(x0, x1, y0, y1). x0 < x1 \<and> y0 < y1)
                   [(ax0, mx0, ay0, ay1), (mx1, ax1, ay0, ay1),
                    (mx0, mx1, ay0, my0), (mx0, mx1, my1, ay1)]
            else [a]))"

definition boxes_Difference :: "box list \<Rightarrow> box list \<Rightarrow> box list" where
  "boxes_Difference A B = foldl (\<lambda>pieces b. concat (map (\<lambda>p. box_minus p b) pieces)) A B"

definition box_area :: "box \<Rightarrow> real" where
  "box_area a = (case a of (x0, x1, y0, y1) \<Rightarrow> (x1 - x0) * (y1 - y0))"

fun boxes_GetArea :: "box list \<Rightarrow> real" where
  "boxes_GetArea [] = 0"
| "boxes_GetArea (b # bs) = sum_list (map box_area (boxes_Difference [b] bs)) + boxes_GetArea bs"

definition boxes_GetEnvelope :: "box list \<Rightarrow> real \<times> real \<times> real \<times> real" where
  "boxes_GetEnvelope A =
     (case A of
        [] \<Rightarrow> (0, 0, 0, 0)
      | (x0, x1, y0, y1) # bs \<Rightarrow>
          (foldl min x0 (map (\<lambda>(x0, x1, y0, y1). x0) bs),
           foldl max x1 (map (\<lambda>(x0, x1, y0, y1). x1) bs),
           foldl min y0 (map (\<lambda>(x0, x1, y0, y1). y0) bs),
           foldl max y1 (map (\<lambda>(x0, x1, y0, y1). y1) bs)))"

text \<open>The polygon of a ring of points: exact for the rectangular rings the engine builds.\<close>

definition boxes_Polygon :: "(real \<times> real) list \<Rightarrow> box list" where
  "boxes_Polygon pts =
     (case pts of
        [] \<Rightarrow> []
      | (x, y) # ps \<Rightarrow>
          [(foldl min x (map fst ps), foldl max x (map fst ps),
            foldl min y (map snd ps), foldl max y (map snd ps))])"

text \<open>The edges of the boxes: the boundary of one box, and of the same envelope for more.\<close>

definition boxes_Boundary :: "box list \<Rightarrow> box list" where
  "boxes_Boundary A =
     concat (map (\<lambda>(x0, x1, y0, y1).
                    [(x0, x1, y0, y0), (x0, x1, y1, y1), (x0, x0, y0, y1), (x1, x1, y0, y1)]) A)"

text \<open>
  Well-known text, as far as the examples need it: \<^verbatim>\<open>POINT (x y)\<close> with two natural
  numbers; any other string is not parsed.
\<close>

definition boxes_FromWkt :: "string \<Rightarrow> box list option" where
  "boxes_FromWkt s =
     (let r = drop 7 s;
          xs = takeWhile is_digit r;
          r' = drop (length xs) r;
          ys = takeWhile is_digit (drop 1 r')
      in if take 7 s = ''POINT ('' \<and> xs \<noteq> [] \<and> take 1 r' = '' '' \<and> ys \<noteq> []
            \<and> drop (1 + length ys) r' = '')''
         then Some [(real (number_of xs), real (number_of xs),
                     real (number_of ys), real (number_of ys))]
         else None)"

text \<open>
  The environment of the box geometry, for a rounding, a truth value of geometries and the
  two directory listings.
\<close>

definition box_env ::
  "(real \<Rightarrow> real) \<Rightarrow> (box list \<Rightarrow> bool) \<Rightarrow> string list \<Rightarrow> string list \<Rightarrow> (box list) env" where
  "box_env r t globbed listed =
     \<lparr>rnd = r,
      Polygon = boxes_Polygon,
      Intersection = boxes_Intersection,
      Union_poly = (\<lambda>A B. A @ B),
      Difference = boxes_Difference,
      Simplify = (\<lambda>A tolerance. A),
      Boundary = boxes_Boundary,
      GetEnvelope = boxes_GetEnvelope,
      GetArea = boxes_GetArea,
      GetX = (\<lambda>A. case A of [] \<Rightarrow> 0 | (x0, x1, y0, y1) # bs \<Rightarrow> x0),
      GetY = (\<lambda>A. case A of [] \<Rightarrow> 0 | (x0, x1, y0, y1) # bs \<Rightarrow> y0),
      CreateGeometryFromWkt = boxes_FromWkt,
      truth = t,
      glob = (\<lambda>fs pattern. globbed),
      listdir = (\<lambda>fs dir. listed)\<rparr>"

text \<open>Exact arithmetic, and the arithmetic of Python floats.\<close>

definition exact_env :: "(box list) env" where
  "exact_env = box_env (\<lambda>x. x) (\<lambda>A. True) [] []"

definition float_env :: "(box list) env" where
  "float_env = box_env binary64 (\<lambda>A. True) [] []"

section \<open>Example rasters\<close>

text \<open>
  A north-up raster of \<open>w\<close> by \<open>h\<close> pixels of size \<open>s\<close>, its top-left corner at
  \<open>(x, y)\<close>, with the given bands; a band is its rows, and a pixel outside them is 0.
\<close>

definition pixels_of :: "int list list list \<Rightarrow> nat \<Rightarrow> nat \<Rightarrow> nat \<Rightarrow> int" where
  "pixels_of bands b y x =
     (if b < length bands \<and> y < length (bands ! b) \<and> x < length (bands ! b ! y)
      then bands ! b ! y ! x else 0)"

definition raster_at :: "real \<Rightarrow> real \<Rightarrow> real \<Rightarrow> nat \<Rightarrow> nat \<Rightarrow> int list list list \<Rightarrow> raster" where
  "raster_at x y s w h bands =
     \<lparr>RasterXSize = w, RasterYSize = h, RasterCount = length bands,
      GeoTransform = \<lparr>gt0 = x, gt1 = s, gt2 = 0, gt3 = y, gt4 = 0, gt5 = - s\<rparr>,
      Projection = ''EPSG:4326'', pixels = pixels_of bands\<rparr>"

text \<open>Two rasters side by side with a gap between them, and two that overlap by half a pixel.\<close>

definition disjoint_files :: files where
  "disjoint_files =
     [''a.tif'' \<mapsto> raster_at 0 0 10 10 10 [[]], ''b.tif'' \<mapsto> raster_at 200 0 10 10 10 [[]]]"

definition sliver_files :: files where
  "sliver_files =
     [''a.tif'' \<mapsto> raster_at 0 0 10 10 10 [[]], ''b.tif'' \<mapsto> raster_at 95 0 10 10 10 [[]]]"

text \<open>Two rasters of the same footprint, the first with one band, the second with two.\<close>

definition band_a :: raster where
  "band_a = raster_at 0 0 1 2 1 [[[1, 2]]]"

definition band_b :: raster where
  "band_b = raster_at 0 0 1 2 1 [[[3, 4]], [[5, 6]]]"

definition band_files :: files where
  "band_files = [''a.tif'' \<mapsto> band_a, ''b.tif'' \<mapsto> band_b]"

text \<open>The raster that the driver creates for their stack.\<close>

definition band_out :: raster where
  "band_out =
     \<lparr>RasterXSize = 2, RasterYSize = 1, RasterCount = 3,
      GeoTransform = \<lparr>gt0 = 0, gt1 = 1, gt2 = 0, gt3 = 0, gt4 = 0, gt5 = - 1\<rparr>,
      Projection = ''EPSG:4326'', pixels = (\<lambda>b y x. 0)\<rparr>"

text \<open>
  Three masks of one row of three pixels on the same footprint, with the values
  True, True, False; True, False, False; and False, True, False.
\<close>

definition mask_files :: files where
  "mask_files =
     [''m1.msk'' \<mapsto> raster_at 0 0 1 3 1 [[[1, 1, 0]]],
      ''m2.msk'' \<mapsto> raster_at 0 0 1 3 1 [[[1, 0, 0]]],
      ''m3.msk'' \<mapsto> raster_at 0 0 1 3 1 [[[0, 1, 0]]]]"

text \<open>
  An image directory that holds one raster, the newest, and nothing older: the file
  system, and the environment whose \<open>glob\<close> lists it.
\<close>

definition single_file :: files where
  "single_file = [''/images/S2A_20180101T101010.gtif'' \<mapsto> raster_at 0 0 10 10 10 [[]]]"

definition single_env :: "(box list) env" where
  "single_env = box_env binary64 (\<lambda>A. True) [''/images/S2A_20180101T101010.gtif''] []"

section \<open>The exceptions of the interpreter\<close>

text \<open>The exceptions that Python and numpy raise, as opposed to those the engine raises itself.\<close>

definition interpreter_error :: "error \<Rightarrow> bool" where
  "interpreter_error e =
     (e \<in> {IndexError, ZeroDivisionError, AttributeError, UnboundLocalError, ValueError})"

section \<open>Properties of the geometry kernel\<close>

text \<open>
  C7. Every pixel window that \<^verbatim>\<open>pixel_bounds_from_polygon\<close> returns, for every raster
  and polygon and whatever the geometry library and the float rounding compute, has its
  first column not after its last and its first row not after its last: a pair computed
  in the wrong order is swapped before it is returned.
\<close>

theorem pixel_bounds_from_polygon_ordered:
  "pixel_bounds_from_polygon env raster polygon = Inr (x_min, x_max, y_min, y_max)
     \<Longrightarrow> x_min \<le> x_max \<and> y_min \<le> y_max"
  unfolding pixel_bounds_from_polygon_def Let_def
  by (auto split: sum.splits prod.splits if_splits)

lemma pixel_bounds_example:
  "pixel_bounds_from_polygon exact_env (raster_at 0 0 10 10 10 [[]]) [(20, 60, - 70, - 30)]
     = Inr (2, 6, 3, 7)"
  by (simp add: pixel_bounds_from_polygon_def exact_env_def box_env_def raster_at_def
      get_raster_bounds_def get_poly_intersection_def boxes_Polygon_def boxes_Intersection_def
      box_inter_def boxes_Boundary_def boxes_GetEnvelope_def point_to_pixel_coordinates_def
      point_xy_def Let_def)

theorem pixel_bounds_from_polygon_ordered_witness:
  "pixel_bounds_from_polygon exact_env (raster_at 0 0 10 10 10 [[]]) [(20, 60, - 70, - 30)]
     = Inr (2, 6, 3, 7) \<and> (2::int) \<le> 6 \<and> (3::int) \<le> 7"
  using pixel_bounds_from_polygon_ordered [OF pixel_bounds_example] pixel_bounds_example
  by simp

text \<open>
  C10. \<^verbatim>\<open>multiple_union\<close> and \<^verbatim>\<open>multiple_intersection\<close> start from the first polygon
  of their list: on the empty list they fail with the index error, and so does
  \<^verbatim>\<open>get_combined_polygon\<close> in both of its modes (in any other mode it fails as well, with
  its own exception); on a list with a first polygon they return the simplified fold.
\<close>

theorem polygon_folds_need_first_polygon:
  "multiple_union env [] = Inl IndexError
   \<and> multiple_intersection env [] = Inl IndexError
   \<and> get_combined_polygon env [] ''intersect'' = Inl IndexError
   \<and> get_combined_polygon env [] ''union'' = Inl IndexError
   \<and> (\<forall>mode. isl (get_combined_polygon env [] mode))
   \<and> multiple_union env (p # ps) = Inr (Simplify env (foldl (Union_poly env) p ps) 0)
   \<and> multiple_intersection env (p # ps) = Inr (Simplify env (foldl (Intersection env) p ps) 0)"
  by (simp add: multiple_union_def multiple_intersection_def get_combined_polygon_def)

section \<open>Which exceptions a function can raise\<close>

lemma point_to_pixel_coordinates_error:
  "point_to_pixel_coordinates env r p b = Inl e \<Longrightarrow> interpreter_error e"
  by (auto simp: point_to_pixel_coordinates_def point_xy_def Let_def interpreter_error_def
      split: sum.splits point.splits option.splits list.splits if_splits prod.splits)

lemma pixel_bounds_from_polygon_error:
  "pixel_bounds_from_polygon env r p = Inl e \<Longrightarrow> interpreter_error e"
  unfolding pixel_bounds_from_polygon_def Let_def
  by (auto split: sum.splits prod.splits if_splits dest!: point_to_pixel_coordinates_error)

lemma getitem_error: "getitem a s = Inl e \<Longrightarrow> interpreter_error e"
  by (auto simp: getitem_def interpreter_error_def Let_def split: if_splits)

lemma copyto_slices_error: "copyto_slices a s src = Inl e \<Longrightarrow> interpreter_error e"
  by (auto simp: copyto_slices_def interpreter_error_def Let_def split: if_splits)

lemma elementwise_error: "elementwise f a b = Inl e \<Longrightarrow> interpreter_error e"
  by (auto simp: elementwise_def interpreter_error_def split: option.splits)

lemma stack_loop_error:
  "stack_loop env out cp rs arr pl = Inl e \<Longrightarrow> interpreter_error e"
proof (induction rs arbitrary: arr pl)
  case Nil
  then show ?case by simp
next
  case (Cons r rs)
  from Cons.prems show ?case
    by (auto simp: Let_def interpreter_error_def[of IndexError]
        split: sum.splits prod.splits if_splits
        dest: pixel_bounds_from_polygon_error getitem_error copyto_slices_error Cons.IH)
qed

lemma gdal_Open_all_error: "gdal_Open_all fs ps = Inl e \<Longrightarrow> interpreter_error e"
  by (induction ps arbitrary: e) (auto simp: interpreter_error_def split: option.splits sum.splits)

lemma get_combined_polygon_error:
  "get_combined_polygon env rs m = Inl e
     \<Longrightarrow> interpreter_error e \<or> e = Exception ''Invalid geometry mode''"
  by (auto simp: get_combined_polygon_def multiple_union_def multiple_intersection_def Let_def
      interpreter_error_def split: if_splits list.splits)

lemma create_new_image_from_polygon_error:
  "create_new_image_from_polygon env p x y b pr = Inl e \<Longrightarrow> interpreter_error e"
  by (auto simp: create_new_image_from_polygon_def Let_def interpreter_error_def
      split: prod.splits if_splits option.splits)

lemma stack_images_error:
  "stack_images env fs ps out m = Inl e \<Longrightarrow>
     (e = StackImagesException \<and> length ps \<le> 1)
     \<or> (1 < length ps \<and> (interpreter_error e \<or> e = Exception ''Invalid geometry mode''))"
  unfolding stack_images_def Let_def
  by (auto split: if_splits sum.splits
      dest: gdal_Open_all_error get_combined_polygon_error create_new_image_from_polygon_error
        stack_loop_error)

section \<open>Properties of stacking\<close>

text \<open>
  C8. \<^verbatim>\<open>stack_images\<close> raises \<^verbatim>\<open>StackImagesException\<close> exactly when it is given fewer
  than two raster paths: with none or one it raises it before anything else, and with two
  or more no step of the function raises it.
\<close>

theorem stack_images_exception_iff:
  "(stack_images env fs raster_paths out_raster_path geometry_mode = Inl StackImagesException)
     = (length raster_paths \<le> 1)"
proof
  assume "stack_images env fs raster_paths out_raster_path geometry_mode
            = Inl StackImagesException"
  from stack_images_error [OF this] show "length raster_paths \<le> 1"
    by (auto simp: interpreter_error_def)
next
  assume "length raster_paths \<le> 1"
  then show "stack_images env fs raster_paths out_raster_path geometry_mode
               = Inl StackImagesException"
    by (simp add: stack_images_def)
qed

section \<open>Evaluating the engine\<close>

text \<open>
  The equations of the exponent search are applied to numbers only, never to a variable;
  the roundings the examples need are proved once, from the definition.
\<close>

declare exponent_down.simps [simp del] exponent_up.simps [simp del]

lemmas float_defs =
  binary64_def pow2_def round_half_even_def exponent_down.simps exponent_up.simps

lemma binary64_values:
  "binary64 0 = 0" "binary64 1 = 1" "binary64 (- 1) = - 1" "binary64 (- 2) = - 2"
  "binary64 2 = 2" "binary64 3 = 3" "binary64 5 = 5" "binary64 10 = 10" "binary64 100 = 100"
  "binary64 (- 100) = - 100" "binary64 195 = 195" "binary64 300 = 300"
  "binary64 (1 / 2) = 1 / 2" "binary64 (3 / 2) = 3 / 2" "binary64 (5 / 2) = 5 / 2"
  by (simp_all add: float_defs)

lemmas box_defs =
  box_env_def boxes_Polygon_def boxes_Intersection_def box_inter_def boxes_Boundary_def
  boxes_GetEnvelope_def boxes_Difference_def box_minus_def box_area_def

lemmas engine_defs =
  get_raster_bounds_def get_poly_intersection_def point_to_pixel_coordinates_def
  point_xy_def pixel_bounds_from_polygon_def multiple_intersection_def multiple_union_def
  get_combined_polygon_def create_new_image_from_polygon_def driver_Create_def py_int_def
  raster_at_def Let_def

section \<open>Properties of the planned output raster\<close>

lemma py_int_floor: "1 \<le> py_int v \<Longrightarrow> py_int v = \<lfloor>v\<rfloor>"
  by (auto simp: py_int_def split: if_splits)

lemma create_new_image_from_polygon_Inr:
  assumes "create_new_image_from_polygon env polygon x_res y_res bands projection = Inr out_raster"
    and "GetEnvelope env polygon = (x_min, x_max, y_min, y_max)"
  shows "1 \<le> py_int (rnd env (rnd env (x_max - x_min) / x_res))
       \<and> 1 \<le> py_int (rnd env (rnd env (y_max - y_min) / y_res))
       \<and> 1 \<le> bands
       \<and> RasterXSize out_raster = nat (py_int (rnd env (rnd env (x_max - x_min) / x_res)))
       \<and> RasterYSize out_raster = nat (py_int (rnd env (rnd env (y_max - y_min) / y_res)))
       \<and> RasterCount out_raster = nat bands
       \<and> GeoTransform out_raster =
            \<lparr>gt0 = x_min, gt1 = x_res, gt2 = 0, gt3 = y_max, gt4 = 0,
             gt5 = rnd env (y_res * (- 1))\<rparr>
       \<and> Projection out_raster = projection
       \<and> pixels out_raster = (\<lambda>b y x. 0)"
  using assms unfolding create_new_image_from_polygon_def driver_Create_def Let_def
  by (auto split: if_splits)

text \<open>
  C2, as the code has it. The width and the height of the raster that
  \<^verbatim>\<open>create_new_image_from_polygon\<close> creates are \<^verbatim>\<open>int\<close> of the float quotients
  \<open>(x_max - x_min) / x_res\<close> and \<open>(y_max - y_min) / y_res\<close> of the polygon's envelope:
  the quotients truncated, which for a raster that is created (its sizes are at least 1)
  is their floor, not their ceiling.
\<close>

theorem create_new_image_from_polygon_size:
  assumes "create_new_image_from_polygon env polygon x_res y_res bands projection = Inr out_raster"
    and "GetEnvelope env polygon = (x_min, x_max, y_min, y_max)"
  shows "int (RasterXSize out_raster) = py_int (rnd env (rnd env (x_max - x_min) / x_res))
       \<and> int (RasterXSize out_raster) = \<lfloor>rnd env (rnd env (x_max - x_min) / x_res)\<rfloor>
       \<and> int (RasterYSize out_raster) = py_int (rnd env (rnd env (y_max - y_min) / y_res))
       \<and> int (RasterYSize out_raster) = \<lfloor>rnd env (rnd env (y_max - y_min) / y_res)\<rfloor>"
proof -
  note h = create_new_image_from_polygon_Inr [OF assms]
  from h have x: "1 \<le> py_int (rnd env (rnd env (x_max - x_min) / x_res))"
    and y: "1 \<le> py_int (rnd env (rnd env (y_max - y_min) / y_res))"
    by simp_all
  from h x y show ?thesis
    using py_int_floor [OF x] py_int_floor [OF y] by simp
qed

lemma planned_raster_example:
  "create_new_image_from_polygon exact_env [(0, 5, 0, 3)] 2 2 1 [] =
     Inr \<lparr>RasterXSize = 2, RasterYSize = 1, RasterCount = 1,
          GeoTransform = \<lparr>gt0 = 0, gt1 = 2, gt2 = 0, gt3 = 3, gt4 = 0, gt5 = - 2\<rparr>,
          Projection = [], pixels = (\<lambda>b y x. 0)\<rparr>"
  by (simp add: exact_env_def box_defs engine_defs)

lemma planned_raster_envelope: "GetEnvelope exact_env [(0, 5, 0, 3)] = (0, 5, 0, 3)"
  by (simp add: exact_env_def box_defs)

theorem create_new_image_from_polygon_size_witness:
  "create_new_image_from_polygon exact_env [(0, 5, 0, 3)] 2 2 1 [] =
     Inr \<lparr>RasterXSize = 2, RasterYSize = 1, RasterCount = 1,
          GeoTransform = \<lparr>gt0 = 0, gt1 = 2, gt2 = 0, gt3 = 3, gt4 = 0, gt5 = - 2\<rparr>,
          Projection = [], pixels = (\<lambda>b y x. 0)\<rparr>
   \<and> GetEnvelope exact_env [(0, 5, 0, 3)] = (0, 5, 0, 3)
   \<and> \<lfloor>rnd exact_env (rnd exact_env (5 - 0) / 2)\<rfloor> = 2
   \<and> \<lfloor>rnd exact_env (rnd exact_env (3 - 0) / 2)\<rfloor> = 1"
  using create_new_image_from_polygon_size [OF planned_raster_example planned_raster_envelope]
    planned_raster_example planned_raster_envelope
  by simp

text \<open>
  The claim C2 as it is stated fails: for an envelope 5 wide and 3 high and a resolution
  of 2, Python floats give a raster of 2 columns and 1 row, where the ceilings are 3 and 2.
\<close>

theorem create_new_image_from_polygon_not_ceiling:
  "map_sum id (\<lambda>r. (RasterXSize r, RasterYSize r))
     (create_new_image_from_polygon float_env [(0, 5, 0, 3)] 2 2 1 []) = Inr (2, 1)
   \<and> (\<lceil>(5 - 0) / (2::real)\<rceil>, \<lceil>(3 - 0) / (2::real)\<rceil>) = (3, 2)"
  by (simp add: float_env_def box_defs engine_defs binary64_values)

section \<open>Stacking rasters that do not overlap\<close>

text \<open>
  C3, as the code has it. When the intersection of the rasters' bounding polygons is the
  empty polygon, whose envelope OGR gives as four zeros, \<^verbatim>\<open>get_combined_polygon\<close>
  returns it like any other polygon, and \<^verbatim>\<open>stack_images\<close> asks the driver for a raster
  of 0 by 0 pixels. The driver creates none, and \<^verbatim>\<open>stack_images\<close> ends with the
  \<^verbatim>\<open>AttributeError\<close> of \<^verbatim>\<open>None.SetGeoTransform\<close>: no raster is written, and no
  exception of the engine says that the rasters do not overlap.
\<close>

theorem stack_images_empty_intersection:
  assumes "1 < length raster_paths"
    and "gdal_Open_all fs raster_paths = Inr rasters"
    and "get_combined_polygon env rasters ''intersect'' = Inr combined_polygons"
    and "GetEnvelope env combined_polygons = (0, 0, 0, 0)"
    and "rnd env 0 = 0"
    and "gt1 (GeoTransform (hd rasters)) \<noteq> 0"
    and "rnd env (gt5 (GeoTransform (hd rasters)) * (- 1)) \<noteq> 0"
  shows "stack_images env fs raster_paths out_raster_path ''intersect'' = Inl AttributeError"
  using assms
  by (simp add: stack_images_def create_new_image_from_polygon_def driver_Create_def py_int_def
      Let_def)

lemma disjoint_files_open:
  "gdal_Open_all disjoint_files [''a.tif'', ''b.tif'']
     = Inr [raster_at 0 0 10 10 10 [[]], raster_at 200 0 10 10 10 [[]]]"
  by (simp add: disjoint_files_def)

lemma disjoint_files_combined:
  "get_combined_polygon float_env [raster_at 0 0 10 10 10 [[]], raster_at 200 0 10 10 10 [[]]]
     ''intersect'' = Inr []"
  by (simp add: float_env_def box_defs engine_defs binary64_values)

lemma disjoint_files_env:
  "GetEnvelope float_env [] = (0, 0, 0, 0)" "rnd float_env 0 = 0"
  "gt1 (GeoTransform (hd [raster_at 0 0 10 10 10 [[]], raster_at 200 0 10 10 10 [[]]])) \<noteq> 0"
  "rnd float_env
     (gt5 (GeoTransform (hd [raster_at 0 0 10 10 10 [[]], raster_at 200 0 10 10 10 [[]]]))
       * (- 1)) \<noteq> 0"
  by (simp_all add: float_env_def box_defs raster_at_def binary64_values)

theorem stack_images_empty_intersection_witness:
  "gdal_Open_all disjoint_files [''a.tif'', ''b.tif'']
     = Inr [raster_at 0 0 10 10 10 [[]], raster_at 200 0 10 10 10 [[]]]
   \<and> get_combined_polygon float_env
         [raster_at 0 0 10 10 10 [[]], raster_at 200 0 10 10 10 [[]]] ''intersect'' = Inr []
   \<and> GetEnvelope float_env [] = (0, 0, 0, 0)
   \<and> stack_images float_env disjoint_files [''a.tif'', ''b.tif''] ''out.tif'' ''intersect''
       = Inl AttributeError"
  using stack_images_empty_intersection
          [OF _ disjoint_files_open disjoint_files_combined disjoint_files_env,
           of "''out.tif''"]
    disjoint_files_open disjoint_files_combined disjoint_files_env(1)
  by simp

text \<open>
  The claim C3 as it is stated fails: on two rasters with a gap between them the fold of
  the intersections returns the empty polygon without a signal, and what
  \<^verbatim>\<open>stack_images\<close> raises is the \<^verbatim>\<open>AttributeError\<close> that it also raises on two rasters
  that do overlap, by half a pixel. Nothing in it tells the two apart.
\<close>

theorem stack_images_no_overlap_unsignalled:
  "multiple_intersection float_env
     (map (get_raster_bounds float_env)
        [raster_at 0 0 10 10 10 [[]], raster_at 200 0 10 10 10 [[]]]) = Inr []
   \<and> stack_images float_env disjoint_files [''a.tif'', ''b.tif''] ''out.tif'' ''intersect''
       = Inl AttributeError
   \<and> get_combined_polygon float_env
        [raster_at 0 0 10 10 10 [[]], raster_at 95 0 10 10 10 [[]]] ''intersect''
       = Inr [(95, 100, - 100, 0)]
   \<and> stack_images float_env sliver_files [''a.tif'', ''b.tif''] ''out.tif'' ''intersect''
       = Inl AttributeError"
  by (simp add: stack_images_def disjoint_files_def sliver_files_def float_env_def box_defs
      engine_defs binary64_values)

section \<open>Properties of the coordinate conversion\<close>

lemma binary64_tenths:
  "binary64 (1 / 10) = 3602879701896397 / 36028797018963968"
  "binary64 (7 / 10) = 3152519739159347 / 4503599627370496"
  "binary64 (154923827181545071 / 36028797018963968) = 4841369599423283 / 1125899906842624"
  "binary64 (4841369599423283 / 1125899906842624) = 4841369599423283 / 1125899906842624"
  "binary64 (154923827181545056 / 3602879701896397) = 6051711999279103 / 140737488355328"
  "binary64 (11427884054452633 / 562949953421312) = 1428485506806579 / 70368744177664"
  "binary64 (91423072435621056 / 3152519739159347) = 8162774324609023 / 281474976710656"
  "binary64 (4503599627370496 / 3152519739159347) = 6433713753386423 / 4503599627370496"
  "binary64 (91423072435621063 / 4503599627370496) = 1428485506806579 / 70368744177664"
  "binary64 (- (91423072435621063 / 4503599627370496)) = - (1428485506806579 / 70368744177664)"
  "binary64 (1428485506806579 / 70368744177664) = 1428485506806579 / 70368744177664"
  "binary64 (1076641785918259 / 70368744177664) = 1076641785918259 / 70368744177664"
  "binary64 (- (1428485506806579 / 70368744177664)) = - (1428485506806579 / 70368744177664)"
  by (simp_all add: float_defs)

lemma point_to_pixel_coordinates_floor:
  assumes "point_xy env point = Inr (x_geo, y_geo)"
    and "gt1 (GeoTransform raster) \<noteq> 0" and "gt5 (GeoTransform raster) \<noteq> 0"
  shows "point_to_pixel_coordinates env raster point oob_fail =
           Inr (\<lfloor>rnd env (rnd env (x_geo - gt0 (GeoTransform raster)) / gt1 (GeoTransform raster))\<rfloor>,
                \<lfloor>rnd env (rnd env (y_geo - gt3 (GeoTransform raster)) / gt5 (GeoTransform raster))\<rfloor>)"
  using assms by (simp add: point_to_pixel_coordinates_def Let_def)

text \<open>
  C6, as the code has it. \<^verbatim>\<open>point_to_pixel_coordinates\<close> takes the floor of both float
  quotients, and in exact arithmetic it is a left inverse of the pixel-to-geographic map of
  an axis-aligned geotransform with nonzero pixel sizes: every integer pixel \<open>(c, r)\<close>,
  inside the raster or not, comes back from its geographic coordinates.
\<close>

theorem pixel_round_trip_exact:
  assumes "gt1 (GeoTransform raster) \<noteq> 0" and "gt5 (GeoTransform raster) \<noteq> 0"
    and "gt2 (GeoTransform raster) = 0" and "gt4 (GeoTransform raster) = 0"
    and "\<forall>x. rnd env x = x"
  shows "point_to_pixel_coordinates env raster (PointSeq [x_geo, y_geo]) oob_fail =
           Inr (\<lfloor>rnd env (rnd env (x_geo - gt0 (GeoTransform raster)) / gt1 (GeoTransform raster))\<rfloor>,
                \<lfloor>rnd env (rnd env (y_geo - gt3 (GeoTransform raster)) / gt5 (GeoTransform raster))\<rfloor>)
       \<and> point_to_pixel_coordinates env raster
             (PointSeq [fst (geoOf env (GeoTransform raster) (c, r)),
                        snd (geoOf env (GeoTransform raster) (c, r))]) oob_fail
           = Inr (c, r)"
  using assms by (simp add: point_to_pixel_coordinates_def point_xy_def geoOf_def Let_def)

theorem pixel_round_trip_exact_witness:
  "(\<forall>x. rnd exact_env x = x)
   \<and> geoOf exact_env (GeoTransform (raster_at 0 0 (1 / 10) 100 100 [[]])) (43, 0) = (43 / 10, 0)
   \<and> point_to_pixel_coordinates exact_env (raster_at 0 0 (1 / 10) 100 100 [[]])
         (PointSeq
            [fst (geoOf exact_env (GeoTransform (raster_at 0 0 (1 / 10) 100 100 [[]])) (43, 0)),
             snd (geoOf exact_env (GeoTransform (raster_at 0 0 (1 / 10) 100 100 [[]])) (43, 0))])
         False = Inr (43, 0)"
  using pixel_round_trip_exact
          [of "raster_at 0 0 (1 / 10) 100 100 [[]]" exact_env 0 0 False 43 0]
  by (simp add: exact_env_def box_env_def raster_at_def geoOf_def)

text \<open>
  The claim C6 as it is stated fails on Python floats: with the pixel size 0.1 (the
  float nearest to it) and the origin 0, column 43 of a raster of 100 columns has the
  x coordinate \<open>43 * 0.1\<close>, rounded, and that coordinate divided by 0.1 and rounded is
  just below 43: the pixel that comes back is column 42.
\<close>

theorem pixel_round_trip_float:
  "point_to_pixel_coordinates float_env
     (raster_at 0 0 (3602879701896397 / 36028797018963968) 100 100 [[]])
     (PointSeq
        [fst (geoOf float_env
                (GeoTransform (raster_at 0 0 (3602879701896397 / 36028797018963968) 100 100 [[]]))
                (43, 0)),
         snd (geoOf float_env
                (GeoTransform (raster_at 0 0 (3602879701896397 / 36028797018963968) 100 100 [[]]))
                (43, 0))])
     False = Inr (42, 0)"
  by (simp add: float_env_def box_env_def geoOf_def engine_defs binary64_values binary64_tenths)

lemma outside_index:
  fixes x o' g :: real and w :: nat
  assumes "g \<noteq> 0" and "x < min o' (o' + g * real w) \<or> max o' (o' + g * real w) < x"
  shows "\<lfloor>(x - o') / g\<rfloor> < 0 \<or> int w \<le> \<lfloor>(x - o') / g\<rfloor>"
proof (cases "0 < g")
  case True
  from assms(2) show ?thesis
  proof
    assume "x < min o' (o' + g * real w)"
    then have "x - o' < 0" by simp
    with True have "(x - o') / g < 0" by (simp add: divide_neg_pos)
    then show ?thesis by (simp add: floor_less_iff)
  next
    assume "max o' (o' + g * real w) < x"
    then have "g * real w < x - o'" by simp
    with True have "real w < (x - o') / g" by (simp add: pos_less_divide_eq mult.commute)
    then show ?thesis by (simp add: le_floor_iff)
  qed
next
  case False
  with assms(1) have neg: "g < 0" by simp
  from assms(2) show ?thesis
  proof
    assume "x < min o' (o' + g * real w)"
    then have "x - o' < g * real w" by simp
    with neg have "real w < (x - o') / g" by (simp add: neg_less_divide_eq mult.commute)
    then show ?thesis by (simp add: le_floor_iff)
  next
    assume "max o' (o' + g * real w) < x"
    then have "0 < x - o'" by simp
    with neg have "(x - o') / g < 0" by (simp add: divide_pos_neg)
    then show ?thesis by (simp add: floor_less_iff)
  qed
qed

text \<open>
  C9, as the code has it. \<^verbatim>\<open>point_to_pixel_coordinates\<close> never reads \<open>oob_fail\<close>: for a
  point that has coordinates (a sequence of two numbers or more, a string that OGR parses,
  a geometry) and a geotransform with nonzero pixel sizes it returns the floors of the two
  float quotients, whatever \<open>oob_fail\<close> is and wherever the point lies. When the point lies
  outside the extent of the raster then, in exact arithmetic, the column is negative or at
  least the width, or the row is negative or at least the height.
\<close>

theorem point_to_pixel_coordinates_no_bounds_check:
  assumes "point_xy env point = Inr (x_geo, y_geo)"
    and "gt1 (GeoTransform raster) \<noteq> 0" and "gt5 (GeoTransform raster) \<noteq> 0"
  shows "(\<forall>oob_fail. point_to_pixel_coordinates env raster point oob_fail =
           Inr (\<lfloor>rnd env (rnd env (x_geo - gt0 (GeoTransform raster)) / gt1 (GeoTransform raster))\<rfloor>,
                \<lfloor>rnd env (rnd env (y_geo - gt3 (GeoTransform raster)) / gt5 (GeoTransform raster))\<rfloor>))
       \<and> ((\<forall>x. rnd env x = x)
            \<and> (x_geo < min (gt0 (GeoTransform raster))
                          (gt0 (GeoTransform raster) + gt1 (GeoTransform raster) * real (RasterXSize raster))
               \<or> max (gt0 (GeoTransform raster))
                      (gt0 (GeoTransform raster) + gt1 (GeoTransform raster) * real (RasterXSize raster)) < x_geo
               \<or> y_geo < min (gt3 (GeoTransform raster))
                          (gt3 (GeoTransform raster) + gt5 (GeoTransform raster) * real (RasterYSize raster))
               \<or> max (gt3 (GeoTransform raster))
                      (gt3 (GeoTransform raster) + gt5 (GeoTransform raster) * real (RasterYSize raster)) < y_geo)
            \<longrightarrow> (\<exists>col row. point_to_pixel_coordinates env raster point False = Inr (col, row)
                  \<and> (col < 0 \<or> int (RasterXSize raster) \<le> col
                      \<or> row < 0 \<or> int (RasterYSize raster) \<le> row)))"
proof (intro conjI allI impI)
  fix oob_fail
  show "point_to_pixel_coordinates env raster point oob_fail =
           Inr (\<lfloor>rnd env (rnd env (x_geo - gt0 (GeoTransform raster)) / gt1 (GeoTransform raster))\<rfloor>,
                \<lfloor>rnd env (rnd env (y_geo - gt3 (GeoTransform raster)) / gt5 (GeoTransform raster))\<rfloor>)"
    by (rule point_to_pixel_coordinates_floor [OF assms])
next
  assume h: "(\<forall>x. rnd env x = x)
            \<and> (x_geo < min (gt0 (GeoTransform raster))
                          (gt0 (GeoTransform raster) + gt1 (GeoTransform raster) * real (RasterXSize raster))
               \<or> max (gt0 (GeoTransform raster))
                      (gt0 (GeoTransform raster) + gt1 (GeoTransform raster) * real (RasterXSize raster)) < x_geo
               \<or> y_geo < min (gt3 (GeoTransform raster))
                          (gt3 (GeoTransform raster) + gt5 (GeoTransform raster) * real (RasterYSize raster))
               \<or> max (gt3 (GeoTransform raster))
                      (gt3 (GeoTransform raster) + gt5 (GeoTransform raster) * real (RasterYSize raster)) < y_geo)"
  then have exact: "\<And>x. rnd env x = x" by simp
  have r: "point_to_pixel_coordinates env raster point False =
           Inr (\<lfloor>(x_geo - gt0 (GeoTransform raster)) / gt1 (GeoTransform raster)\<rfloor>,
                \<lfloor>(y_geo - gt3 (GeoTransform raster)) / gt5 (GeoTransform raster)\<rfloor>)"
    using point_to_pixel_coordinates_floor [OF assms, of False] by (simp add: exact)
  from h outside_index [OF assms(2), of x_geo "gt0 (GeoTransform raster)" "RasterXSize raster"]
    outside_index [OF assms(3), of y_geo "gt3 (GeoTransform raster)" "RasterYSize raster"]
  have "\<lfloor>(x_geo - gt0 (GeoTransform raster)) / gt1 (GeoTransform raster)\<rfloor> < 0
      \<or> int (RasterXSize raster) \<le> \<lfloor>(x_geo - gt0 (GeoTransform raster)) / gt1 (GeoTransform raster)\<rfloor>
      \<or> \<lfloor>(y_geo - gt3 (GeoTransform raster)) / gt5 (GeoTransform raster)\<rfloor> < 0
      \<or> int (RasterYSize raster) \<le> \<lfloor>(y_geo - gt3 (GeoTransform raster)) / gt5 (GeoTransform raster)\<rfloor>"
    by blast
  with r show "\<exists>col row. point_to_pixel_coordinates env raster point False = Inr (col, row)
                  \<and> (col < 0 \<or> int (RasterXSize raster) \<le> col
                      \<or> row < 0 \<or> int (RasterYSize raster) \<le> row)"
    by blast
qed

theorem point_to_pixel_coordinates_no_bounds_check_witness:
  "point_xy exact_env (PointSeq [105, - 5]) = Inr (105, - 5)
   \<and> (\<forall>x. rnd exact_env x = x)
   \<and> max 0 (0 + 10 * real (RasterXSize (raster_at 0 0 10 10 10 [[]]))) < (105::real)
   \<and> point_to_pixel_coordinates exact_env (raster_at 0 0 10 10 10 [[]]) (PointSeq [105, - 5]) True
       = Inr (10, 0)
   \<and> point_to_pixel_coordinates exact_env (raster_at 0 0 10 10 10 [[]]) (PointSeq [105, - 5]) False
       = Inr (10, 0)
   \<and> int (RasterXSize (raster_at 0 0 10 10 10 [[]])) \<le> 10"
  using point_to_pixel_coordinates_no_bounds_check
          [of exact_env "PointSeq [105, - 5]" 105 "- 5" "raster_at 0 0 10 10 10 [[]]"]
  by (simp add: exact_env_def box_env_def raster_at_def point_xy_def
      point_to_pixel_coordinates_def)

text \<open>
  The claim C9 as it is stated fails on Python floats: a raster of 29 by 29 pixels of size
  0.7 with its corner at \<open>(-5, 0)\<close> has its right edge at \<open>-5 + 29 * 0.7\<close>; the float
  15.299999999999999 lies to the right of that edge, as the reals and as the floats of
  \<^verbatim>\<open>get_raster_bounds\<close> have it, and the point with this x and \<open>y = -1\<close> gets the pixel
  \<open>(28, 1)\<close>, the last column of the raster.
\<close>

theorem point_outside_extent_gets_inside_index:
  "point_to_pixel_coordinates float_env
     (raster_at (- 5) 0 (3152519739159347 / 4503599627370496) 29 29 [[]])
     (PointSeq [8613134287346073 / 562949953421312, - 1]) False = Inr (28, 1)
   \<and> get_raster_bounds float_env
         (raster_at (- 5) 0 (3152519739159347 / 4503599627370496) 29 29 [[]])
       = [(- 5, 1076641785918259 / 70368744177664, - (1428485506806579 / 70368744177664), 0)]
   \<and> (1076641785918259 / 70368744177664 :: real) < 8613134287346073 / 562949953421312
   \<and> (- 5 + 29 * (3152519739159347 / 4503599627370496) :: real)
        < 8613134287346073 / 562949953421312"
  by (simp add: float_env_def box_defs engine_defs binary64_values binary64_tenths)

section \<open>Properties of the mask combiner\<close>

lemmas array_defs =
  GetVirtualMemArray_def getitem_def window_def slice_bounds_def in_window_def
  expand_dims0_def broadcast_shapes_def bidx_def elementwise_def bitwise_or_def bitwise_and_def
  copyto_slices_def written_def pixels_of_def

text \<open>The loop of \<^verbatim>\<open>combine_masks\<close> returns the array it was given.\<close>

lemma combine_loop_unchanged:
  "combine_loop env out_mask cp f masks arr = Inr arr' \<Longrightarrow> arr' = arr"
proof (induction masks)
  case Nil
  then show ?case by simp
next
  case (Cons m masks)
  from Cons.prems show ?case
    by (auto simp: Let_def split: sum.splits prod.splits if_splits intro: Cons.IH)
qed

lemma written_GetVirtualMemArray:
  "pixels r = (\<lambda>b y x. 0) \<Longrightarrow> written r (GetVirtualMemArray r) = r"
  by (cases r) (auto simp: written_def GetVirtualMemArray_def fun_eq_iff)

text \<open>
  So every mask that \<^verbatim>\<open>combine_masks\<close> writes is the raster the driver created: one
  band, every pixel 0, whatever the input masks hold.
\<close>

lemma combine_masks_blank:
  assumes "combine_masks env fs mask_paths out_path combination_func geometry_func = Inr fs'"
  shows "\<exists>out_mask. fs' out_path = Some out_mask \<and> RasterCount out_mask = 1
            \<and> pixels out_mask = (\<lambda>b y x. 0)"
proof -
  from assms obtain masks cp out_mask arr where
    c: "create_new_image_from_polygon env cp (gt1 (GeoTransform (hd masks)))
          (rnd env (gt5 (GeoTransform (hd masks)) * (- 1))) 1 (Projection (hd masks))
        = Inr out_mask"
    and l: "combine_loop env out_mask cp combination_func masks (GetVirtualMemArray out_mask)
            = Inr arr"
    and f: "fs' = fs(out_path \<mapsto> written out_mask arr)"
    unfolding combine_masks_def Let_def by (auto split: sum.splits)
  obtain a b c' d where "GetEnvelope env cp = (a, b, c', d)"
    by (cases "GetEnvelope env cp") auto
  from create_new_image_from_polygon_Inr [OF c this]
  have r: "RasterCount out_mask = 1" "pixels out_mask = (\<lambda>b y x. 0)" by simp_all
  from combine_loop_unchanged [OF l] f r have "fs' out_path = Some out_mask"
    by (simp add: written_GetVirtualMemArray)
  with r show ?thesis by simp
qed

text \<open>
  C1 on the code. For the three masks True, True, False; True, False, False; and False,
  True, False on the same footprint, \<^verbatim>\<open>combine_masks\<close> with \<^verbatim>\<open>'or'\<close> writes a mask of
  one band, one row and three columns whose pixels are 0, 0, 0, where the bitwise OR of
  the inputs is 1, 1, 0: \<^verbatim>\<open>np.bitwise_or\<close> returns a new array, which the source binds
  to the name of the view and drops.
\<close>

theorem combine_masks_or_scenario:
  "map_sum id
     (\<lambda>fs'. map_option
         (\<lambda>r. (RasterCount r, RasterYSize r, RasterXSize r, map (pixels r 0 0) [0, 1, 2]))
         (fs' ''out.msk''))
     (combine_masks float_env mask_files [''m1.msk'', ''m2.msk'', ''m3.msk''] ''out.msk''
        ''or'' ''intersect'')
   = Inr (Some (1, 1, 3, [0, 0, 0]))"
  by (simp add: combine_masks_def mask_files_def float_env_def box_defs engine_defs array_defs
      binary64_values)

section \<open>Properties of the incremental cover selector\<close>

lemma combine_loop_error:
  "combine_loop env out cp f masks arr = Inl e
     \<Longrightarrow> interpreter_error e \<or> e = Exception ''Invalid combination_func''"
proof (induction masks)
  case Nil
  then show ?case by simp
next
  case (Cons m masks)
  from Cons.prems Cons.IH show ?case
    by (auto simp: Let_def bitwise_or_def bitwise_and_def
        split: sum.splits prod.splits if_splits
        dest: pixel_bounds_from_polygon_error getitem_error elementwise_error)
qed

lemma combine_masks_error:
  "combine_masks env fs ps out f g = Inl e \<Longrightarrow> e \<noteq> CreateNewStacksException"
  unfolding combine_masks_def Let_def
  by (auto simp: interpreter_error_def split: sum.splits
      dest!: gdal_Open_all_error get_combined_polygon_error create_new_image_from_polygon_error
        combine_loop_error)

lemma get_sen_2_image_timestamp_error:
  "get_sen_2_image_timestamp n = Inl e \<Longrightarrow> interpreter_error e"
  by (auto simp: get_sen_2_image_timestamp_def interpreter_error_def split: option.splits)

lemma stack_old_and_new_images_error:
  "stack_old_and_new_images env fs old new out_dir m = Inl e \<Longrightarrow> e \<noteq> CreateNewStacksException"
  unfolding stack_old_and_new_images_def Let_def
  by (auto simp: interpreter_error_def split: sum.splits if_splits
      dest!: get_sen_2_image_timestamp_error stack_images_error combine_masks_error)

lemma stack_loop_new_error:
  "stack_loop_new env latest stack_dir imgs fs new_images = Inl e \<Longrightarrow> e \<noteq> CreateNewStacksException"
proof (induction imgs arbitrary: fs new_images)
  case Nil
  then show ?case by simp
next
  case (Cons i imgs)
  from Cons.prems Cons.IH show ?case
    by (fastforce split: if_splits sum.splits prod.splits
        dest: stack_old_and_new_images_error)
qed

lemma cover_loop_error:
  "cover_loop env fs threshold files poly acc = Inl e \<Longrightarrow> interpreter_error e"
proof (induction files arbitrary: poly acc)
  case Nil
  then show ?case by simp
next
  case (Cons f files)
  from Cons.prems show ?case
    by (auto simp: Let_def interpreter_error_def[of AttributeError]
        split: option.splits if_splits dest: Cons.IH)
qed

lemma acquisition_times_error:
  "acquisition_times xs = Inl e \<Longrightarrow> interpreter_error e"
proof (induction xs)
  case Nil
  then show ?case by simp
next
  case (Cons x xs)
  from Cons.prems show ?case
    by (auto simp: get_image_acquisition_time_def strptime_def Let_def
        interpreter_error_def[of ValueError]
        split: sum.splits if_splits dest: get_sen_2_image_timestamp_error Cons.IH)
qed

lemma sort_by_timestamp_error:
  "sort_by_timestamp xs = Inl e \<Longrightarrow> interpreter_error e"
  by (auto simp: sort_by_timestamp_def split: sum.splits dest: acquisition_times_error)

text \<open>
  C4, as the code has it. \<^verbatim>\<open>create_new_stacks\<close> raises
  \<^verbatim>\<open>CreateNewStacksException\<close> exactly when the image directory holds no
  \<^verbatim>\<open>.gtif\<close> raster at all, not even a newest one; no later step of the function raises
  it.
\<close>

theorem create_new_stacks_exception_iff:
  "(create_new_stacks env fs image_dir stack_dir threshold = Inl CreateNewStacksException)
     = (glob env fs (path_join image_dir ''*.gtif'') = [])"
proof
  assume a: "create_new_stacks env fs image_dir stack_dir threshold = Inl CreateNewStacksException"
  show "glob env fs (path_join image_dir ''*.gtif'') = []"
  proof (rule ccontr)
    assume "glob env fs (path_join image_dir ''*.gtif'') \<noteq> []"
    with a show False
      unfolding create_new_stacks_def Let_def
      by (auto simp: interpreter_error_def split: sum.splits list.splits option.splits
          dest: sort_by_timestamp_error cover_loop_error stack_loop_new_error)
  qed
next
  assume "glob env fs (path_join image_dir ''*.gtif'') = []"
  then show "create_new_stacks env fs image_dir stack_dir threshold = Inl CreateNewStacksException"
    by (simp add: create_new_stacks_def)
qed

lemmas time_defs =
  sort_by_timestamp_def get_image_acquisition_time_def get_sen_2_image_timestamp_def
  timestamp_matches_def is_digit_def strptime_def number_of_def digit_val_def days_in_month_def

lemma single_file_sorted:
  "sort_by_timestamp [''/images/S2A_20180101T101010.gtif'']
     = Inr [''/images/S2A_20180101T101010.gtif'']"
  by (simp add: time_defs)

text \<open>
  The claim C4 as it is stated fails: with the newest raster alone in the directory there
  are no historical rasters, and \<^verbatim>\<open>create_new_stacks\<close> raises nothing; it returns an
  empty list of stacks and leaves the file system as it was.
\<close>

theorem create_new_stacks_no_historical_rasters:
  "glob single_env single_file (path_join ''/images'' ''*.gtif'')
     = [''/images/S2A_20180101T101010.gtif'']
   \<and> create_new_stacks single_env single_file ''/images'' ''/stacks'' 100
       = Inr (single_file, [])"
  by (simp add: create_new_stacks_def single_env_def single_file_def single_file_sorted
      box_defs engine_defs binary64_values)

section \<open>Where the bands of a stack come from\<close>

lemma copyto_slices_shape: "copyto_slices a slices src = Inr a' \<Longrightarrow> shape a' = shape a"
  by (auto simp: copyto_slices_def Let_def split: if_splits)

lemma copyto_slices_item:
  "copyto_slices a slices src = Inr a' \<Longrightarrow>
     item a' idx =
       (if in_window (window (shape a) slices) idx
        then item src (bidx (shape src) (map2 (\<lambda>w i. i - fst w) (window (shape a) slices) idx))
        else item a idx)"
  by (auto simp: copyto_slices_def Let_def split: if_splits)

lemma window_Cons:
  "window (n # sh) (s # slices) = slice_bounds n s # window sh slices"
  by (simp add: window_def)

lemma slice_bounds_lower:
  "0 \<le> pl \<Longrightarrow> slice_bounds n (pl, ph) = (lo, len) \<Longrightarrow> lo \<le> b \<Longrightarrow> b < lo + len
     \<Longrightarrow> pl \<le> int b"
  by (auto simp: slice_bounds_def Let_def min_def max_def split: if_splits)

lemma slice_bounds_inside:
  "0 \<le> pl \<Longrightarrow> pl \<le> ph \<Longrightarrow> ph \<le> int n \<Longrightarrow> slice_bounds n (pl, ph) = (nat pl, nat (ph - pl))"
  by (auto simp: slice_bounds_def Let_def min_def max_def)

lemma stack_loop_shape:
  "stack_loop env out cp rs arr pl = Inr arr' \<Longrightarrow> shape arr' = shape arr"
proof (induction rs arbitrary: arr pl)
  case Nil
  then show ?case by simp
next
  case (Cons r rs)
  from Cons.prems Cons.IH show ?case
    by (fastforce simp: Let_def split: sum.splits prod.splits if_splits
        dest: copyto_slices_shape)
qed

lemma stack_loop_append:
  "stack_loop env out cp (rs1 @ rs2) arr pl =
     (case stack_loop env out cp rs1 arr pl of
        Inl e \<Rightarrow> Inl e
      | Inr a \<Rightarrow> stack_loop env out cp rs2 a (pl + int (sum_list (map RasterCount rs1))))"
proof (induction rs1 arbitrary: arr pl)
  case Nil
  then show ?case by simp
next
  case (Cons r rs1)
  show ?case
    by (simp add: Let_def Cons.IH add.assoc split: sum.splits prod.splits)
qed

lemma in_window_band:
  assumes "in_window (window sh ((pl, ph) # slices)) (b # idx)" and "0 \<le> pl"
    and "length ((pl, ph) # slices) \<le> length sh"
  shows "pl \<le> int b"
proof -
  from assms(3) obtain n sh' where sh: "sh = n # sh'" by (cases sh) auto
  obtain lo len where sb: "slice_bounds n (pl, ph) = (lo, len)"
    by (cases "slice_bounds n (pl, ph)") auto
  from assms(1) sh sb have "lo \<le> b" "b < lo + len"
    by (simp_all add: window_Cons in_window_def)
  from slice_bounds_lower [OF assms(2) sb this] show ?thesis .
qed

lemma stack_loop_below:
  "stack_loop env out cp rs arr pl = Inr arr' \<Longrightarrow> 0 \<le> pl \<Longrightarrow> int b < pl
     \<Longrightarrow> item arr' (b # idx) = item arr (b # idx)"
proof (induction rs arbitrary: arr pl)
  case Nil
  then show ?case by simp
next
  case (Cons r rs)
  from Cons.prems(1) obtain ox0 ox1 oy0 oy1 src arr1 where
    len: "length [(pl, pl + int (RasterCount r)), (oy0, oy1), (ox0, ox1)] \<le> length (shape arr)"
    and c: "copyto_slices arr [(pl, pl + int (RasterCount r)), (oy0, oy1), (ox0, ox1)] src = Inr arr1"
    and l: "stack_loop env out cp rs arr1 (pl + int (RasterCount r)) = Inr arr'"
    by (auto simp: Let_def split: sum.splits prod.splits if_splits)
  have "\<not> in_window (window (shape arr) [(pl, pl + int (RasterCount r)), (oy0, oy1), (ox0, ox1)]) (b # idx)"
    using in_window_band [OF _ Cons.prems(2) len, of b idx] Cons.prems(3) by auto
  with copyto_slices_item [OF c, of "b # idx"] have "item arr1 (b # idx) = item arr (b # idx)"
    by simp
  moreover from Cons.IH [OF l] Cons.prems(2,3) have "item arr' (b # idx) = item arr1 (b # idx)"
    by simp
  ultimately show ?case by simp
qed

lemma slice_bounds_upper:
  "0 \<le> ph \<Longrightarrow> slice_bounds n (pl, ph) = (lo, len) \<Longrightarrow> lo \<le> b \<Longrightarrow> b < lo + len
     \<Longrightarrow> int b < ph"
  by (auto simp: slice_bounds_def Let_def min_def max_def split: if_splits)

lemma in_window_band_upper:
  assumes "in_window (window sh ((pl, ph) # slices)) (b # idx)" and "0 \<le> ph"
    and "length ((pl, ph) # slices) \<le> length sh"
  shows "int b < ph"
proof -
  from assms(3) obtain n sh' where sh: "sh = n # sh'" by (cases sh) auto
  obtain lo len where sb: "slice_bounds n (pl, ph) = (lo, len)"
    by (cases "slice_bounds n (pl, ph)") auto
  from assms(1) sh sb have "lo \<le> b" "b < lo + len"
    by (simp_all add: window_Cons in_window_def)
  from slice_bounds_upper [OF assms(2) sb this] show ?thesis .
qed

lemma stack_loop_step:
  assumes "stack_loop env out cp (r # rs) arr pl = Inr arr'"
  shows "\<exists>ox0 ox1 oy0 oy1 ix0 ix1 iy0 iy1 in_view arr1.
      pixel_bounds_from_polygon env out cp = Inr (ox0, ox1, oy0, oy1)
    \<and> pixel_bounds_from_polygon env r cp = Inr (ix0, ix1, iy0, iy1)
    \<and> 3 \<le> length (shape arr)
    \<and> getitem (in_array r) [(0, int (RasterCount r)), (iy0, iy1), (ix0, ix1)] = Inr in_view
    \<and> copyto_slices arr [(pl, pl + int (RasterCount r)), (oy0, oy1), (ox0, ox1)] in_view = Inr arr1
    \<and> stack_loop env out cp rs arr1 (pl + int (RasterCount r)) = Inr arr'"
  using assms by (auto simp: Let_def split: sum.splits prod.splits if_splits)

lemma stack_loop_nth:
  assumes loop: "stack_loop env out cp rs arr pl = Inr final" and pl: "0 \<le> pl"
    and i: "i < length rs"
  shows "\<exists>ox0 ox1 oy0 oy1 ix0 ix1 iy0 iy1 in_view.
      pixel_bounds_from_polygon env out cp = Inr (ox0, ox1, oy0, oy1)
    \<and> pixel_bounds_from_polygon env (rs ! i) cp = Inr (ix0, ix1, iy0, iy1)
    \<and> 3 \<le> length (shape arr)
    \<and> getitem (in_array (rs ! i)) [(0, int (RasterCount (rs ! i))), (iy0, iy1), (ix0, ix1)]
        = Inr in_view
    \<and> broadcast_shapes (shape in_view)
          (map snd (window (shape arr)
             [(pl + int (sum_list (map RasterCount (take i rs))),
               pl + int (sum_list (map RasterCount (take i rs))) + int (RasterCount (rs ! i))),
              (oy0, oy1), (ox0, ox1)]))
        = Some (map snd (window (shape arr)
             [(pl + int (sum_list (map RasterCount (take i rs))),
               pl + int (sum_list (map RasterCount (take i rs))) + int (RasterCount (rs ! i))),
              (oy0, oy1), (ox0, ox1)]))
    \<and> (\<forall>idx. in_window (window (shape arr)
             [(pl + int (sum_list (map RasterCount (take i rs))),
               pl + int (sum_list (map RasterCount (take i rs))) + int (RasterCount (rs ! i))),
              (oy0, oy1), (ox0, ox1)]) idx
          \<longrightarrow> item final idx =
                item in_view (bidx (shape in_view)
                  (map2 (\<lambda>w j. j - fst w)
                     (window (shape arr)
                        [(pl + int (sum_list (map RasterCount (take i rs))),
                          pl + int (sum_list (map RasterCount (take i rs)))
                            + int (RasterCount (rs ! i))),
                         (oy0, oy1), (ox0, ox1)]) idx)))"
proof -
  let ?off = "pl + int (sum_list (map RasterCount (take i rs)))"
  let ?c = "int (RasterCount (rs ! i))"
  from i have split: "rs = take i rs @ rs ! i # drop (Suc i) rs"
    by (simp add: id_take_nth_drop)
  from loop obtain before where
    b: "stack_loop env out cp (take i rs) arr pl = Inr before"
    and rest: "stack_loop env out cp (rs ! i # drop (Suc i) rs) before ?off = Inr final"
    using stack_loop_append [of env out cp "take i rs" "rs ! i # drop (Suc i) rs" arr pl] split
    by (auto split: sum.splits)
  have sh: "shape before = shape arr" by (rule stack_loop_shape [OF b])
  from stack_loop_step [OF rest] obtain ox0 ox1 oy0 oy1 ix0 ix1 iy0 iy1 in_view arr1 where
    o: "pixel_bounds_from_polygon env out cp = Inr (ox0, ox1, oy0, oy1)"
    and n: "pixel_bounds_from_polygon env (rs ! i) cp = Inr (ix0, ix1, iy0, iy1)"
    and three: "3 \<le> length (shape before)"
    and v: "getitem (in_array (rs ! i)) [(0, ?c), (iy0, iy1), (ix0, ix1)] = Inr in_view"
    and c: "copyto_slices before [(?off, ?off + ?c), (oy0, oy1), (ox0, ox1)] in_view = Inr arr1"
    and l: "stack_loop env out cp (drop (Suc i) rs) arr1 (?off + ?c) = Inr final"
    by blast
  let ?win = "window (shape arr) [(?off, ?off + ?c), (oy0, oy1), (ox0, ox1)]"
  from c sh have bc: "broadcast_shapes (shape in_view) (map snd ?win) = Some (map snd ?win)"
    by (auto simp: copyto_slices_def Let_def split: if_splits)
  have "item final idx = item in_view (bidx (shape in_view) (map2 (\<lambda>w j. j - fst w) ?win idx))"
    if w: "in_window ?win idx" for idx
  proof -
    from w three sh obtain b idx' where idx: "idx = b # idx'"
      by (cases idx) (auto simp: in_window_def window_def)
    from pl have off: "0 \<le> ?off + ?c" by simp
    from three sh have len: "length [(?off, ?off + ?c), (oy0, oy1), (ox0, ox1)] \<le> length (shape arr)"
      by simp
    from in_window_band_upper [OF w [unfolded idx] off len] have "int b < ?off + ?c" .
    from stack_loop_below [OF l off this] have "item final idx = item arr1 idx"
      by (simp add: idx)
    also from copyto_slices_item [OF c, of idx] w sh
    have "item arr1 idx = item in_view (bidx (shape in_view) (map2 (\<lambda>w j. j - fst w) ?win idx))"
      by simp
    finally show ?thesis .
  qed
  with o n three sh v bc show ?thesis by auto
qed

lemma gdal_Open_all_length: "gdal_Open_all fs ps = Inr rs \<Longrightarrow> length rs = length ps"
  by (induction ps arbitrary: rs) (auto split: option.splits sum.splits)

lemma sum_list_take_nth_le:
  fixes xs :: "nat list"
  assumes "i < length xs"
  shows "sum_list (take i xs) + xs ! i \<le> sum_list xs"
proof -
  from assms have "xs = take i xs @ xs ! i # drop (Suc i) xs"
    by (simp add: id_take_nth_drop)
  then have "sum_list xs = sum_list (take i xs) + xs ! i + sum_list (drop (Suc i) xs)"
    by (metis add.assoc sum_list.Cons sum_list_append)
  then show ?thesis by simp
qed

lemma written_fields:
  "GeoTransform (written r a) = GeoTransform r" "RasterXSize (written r a) = RasterXSize r"
  "RasterYSize (written r a) = RasterYSize r" "RasterCount (written r a) = RasterCount r"
  by (simp_all add: written_def)

lemma get_raster_bounds_written:
  "get_raster_bounds env (written r a) = get_raster_bounds env r"
  unfolding get_raster_bounds_def written_fields ..

lemma point_to_pixel_coordinates_written:
  "point_to_pixel_coordinates env (written r a) p b = point_to_pixel_coordinates env r p b"
  unfolding point_to_pixel_coordinates_def written_fields ..

lemma pixel_bounds_from_polygon_written:
  "pixel_bounds_from_polygon env (written r a) p = pixel_bounds_from_polygon env r p"
  unfolding pixel_bounds_from_polygon_def get_raster_bounds_written
    point_to_pixel_coordinates_written ..

lemma stack_images_Inr:
  assumes "stack_images env fs raster_paths out_raster_path geometry_mode = Inr fs'"
  shows "\<exists>rasters combined out0 final x_min x_max y_min y_max.
      gdal_Open_all fs raster_paths = Inr rasters
    \<and> 1 < length rasters
    \<and> get_combined_polygon env rasters geometry_mode = Inr combined
    \<and> GetEnvelope env combined = (x_min, x_max, y_min, y_max)
    \<and> create_new_image_from_polygon env combined (gt1 (GeoTransform (hd rasters)))
          (rnd env (gt5 (GeoTransform (hd rasters)) * (- 1)))
          (int (sum_list (map RasterCount rasters))) (Projection (hd rasters)) = Inr out0
    \<and> stack_loop env out0 combined rasters (GetVirtualMemArray out0) 0 = Inr final
    \<and> fs' = fs(out_raster_path \<mapsto> written out0 final)"
proof -
  from assms obtain rasters combined out0 final where
    h: "1 < length raster_paths" "gdal_Open_all fs raster_paths = Inr rasters"
      "get_combined_polygon env rasters geometry_mode = Inr combined"
      "create_new_image_from_polygon env combined (gt1 (GeoTransform (hd rasters)))
          (rnd env (gt5 (GeoTransform (hd rasters)) * (- 1)))
          (int (sum_list (map RasterCount rasters))) (Projection (hd rasters)) = Inr out0"
      "stack_loop env out0 combined rasters (GetVirtualMemArray out0) 0 = Inr final"
      "fs' = fs(out_raster_path \<mapsto> written out0 final)"
    unfolding stack_images_def Let_def by (auto split: if_splits sum.splits)
  obtain x_min x_max y_min y_max where "GetEnvelope env combined = (x_min, x_max, y_min, y_max)"
    by (cases "GetEnvelope env combined") auto
  with h gdal_Open_all_length [OF h(2)] show ?thesis by auto
qed

text \<open>
  C5. When \<^verbatim>\<open>stack_images\<close> succeeds, the raster it writes has as many bands as its
  inputs have together, and the bands of the input number \<open>i\<close> start at the band whose
  index is the sum of the band counts of the inputs before it: inside the window of the
  output that \<^verbatim>\<open>pixel_bounds_from_polygon\<close> gives, band \<open>k\<close> of that input is copied
  to band \<open>offset + k\<close> from the window of the input, broadcast as numpy does, and no
  later input overwrites it. So the first input has the bands from 0.
\<close>

theorem stack_images_band_layout:
  assumes "stack_images env fs raster_paths out_raster_path geometry_mode = Inr fs'"
  shows "\<exists>rasters combined out_raster.
      gdal_Open_all fs raster_paths = Inr rasters
    \<and> get_combined_polygon env rasters geometry_mode = Inr combined
    \<and> fs' out_raster_path = Some out_raster
    \<and> RasterCount out_raster = sum_list (map RasterCount rasters)
    \<and> (\<forall>i<length rasters. \<exists>ox0 ox1 oy0 oy1 ix0 ix1 iy0 iy1 in_view.
          pixel_bounds_from_polygon env out_raster combined = Inr (ox0, ox1, oy0, oy1)
        \<and> pixel_bounds_from_polygon env (rasters ! i) combined = Inr (ix0, ix1, iy0, iy1)
        \<and> getitem (in_array (rasters ! i))
              [(0, int (RasterCount (rasters ! i))), (iy0, iy1), (ix0, ix1)] = Inr in_view
        \<and> (\<forall>k y x.
              k < RasterCount (rasters ! i)
              \<and> in_window (window [RasterYSize out_raster, RasterXSize out_raster]
                             [(oy0, oy1), (ox0, ox1)]) [y, x]
              \<longrightarrow> pixels out_raster (sum_list (map RasterCount (take i rasters)) + k) y x
                    = item in_view
                        (bidx (shape in_view)
                           [k, y - fst (slice_bounds (RasterYSize out_raster) (oy0, oy1)),
                            x - fst (slice_bounds (RasterXSize out_raster) (ox0, ox1))])))"
proof -
  from stack_images_Inr [OF assms]
  obtain rasters combined out0 final x_min x_max y_min y_max where
    opened: "gdal_Open_all fs raster_paths = Inr rasters"
    and many: "1 < length rasters"
    and comb: "get_combined_polygon env rasters geometry_mode = Inr combined"
    and envl: "GetEnvelope env combined = (x_min, x_max, y_min, y_max)"
    and created: "create_new_image_from_polygon env combined (gt1 (GeoTransform (hd rasters)))
          (rnd env (gt5 (GeoTransform (hd rasters)) * (- 1)))
          (int (sum_list (map RasterCount rasters))) (Projection (hd rasters)) = Inr out0"
    and loop: "stack_loop env out0 combined rasters (GetVirtualMemArray out0) 0 = Inr final"
    and fs': "fs' = fs(out_raster_path \<mapsto> written out0 final)"
    by blast
  let ?T = "sum_list (map RasterCount rasters)"
  let ?out = "written out0 final"
  from create_new_image_from_polygon_Inr [OF created envl]
  have count: "RasterCount out0 = ?T" by simp
  have final_shape: "shape final = shape (GetVirtualMemArray out0)"
    by (rule stack_loop_shape [OF loop])
  have layout: "\<exists>ox0 ox1 oy0 oy1 ix0 ix1 iy0 iy1 in_view.
          pixel_bounds_from_polygon env ?out combined = Inr (ox0, ox1, oy0, oy1)
        \<and> pixel_bounds_from_polygon env (rasters ! i) combined = Inr (ix0, ix1, iy0, iy1)
        \<and> getitem (in_array (rasters ! i))
              [(0, int (RasterCount (rasters ! i))), (iy0, iy1), (ix0, ix1)] = Inr in_view
        \<and> (\<forall>k y x.
              k < RasterCount (rasters ! i)
              \<and> in_window (window [RasterYSize ?out, RasterXSize ?out]
                             [(oy0, oy1), (ox0, ox1)]) [y, x]
              \<longrightarrow> pixels ?out (sum_list (map RasterCount (take i rasters)) + k) y x
                    = item in_view
                        (bidx (shape in_view)
                           [k, y - fst (slice_bounds (RasterYSize ?out) (oy0, oy1)),
                            x - fst (slice_bounds (RasterXSize ?out) (ox0, ox1))]))"
    if i: "i < length rasters" for i
  proof -
    let ?off = "sum_list (map RasterCount (take i rasters))"
    let ?c = "RasterCount (rasters ! i)"
    from stack_loop_nth [OF loop _ i]
    obtain ox0 ox1 oy0 oy1 ix0 ix1 iy0 iy1 in_view where
      o: "pixel_bounds_from_polygon env out0 combined = Inr (ox0, ox1, oy0, oy1)"
      and n: "pixel_bounds_from_polygon env (rasters ! i) combined = Inr (ix0, ix1, iy0, iy1)"
      and three: "3 \<le> length (shape (GetVirtualMemArray out0))"
      and v: "getitem (in_array (rasters ! i)) [(0, int ?c), (iy0, iy1), (ix0, ix1)] = Inr in_view"
      and items: "\<And>idx. in_window (window (shape (GetVirtualMemArray out0))
             [(int ?off, int ?off + int ?c), (oy0, oy1), (ox0, ox1)]) idx
          \<Longrightarrow> item final idx =
                item in_view (bidx (shape in_view)
                  (map2 (\<lambda>w j. j - fst w)
                     (window (shape (GetVirtualMemArray out0))
                        [(int ?off, int ?off + int ?c), (oy0, oy1), (ox0, ox1)]) idx))"
      by auto
    from three have sh: "shape (GetVirtualMemArray out0)
        = [RasterCount out0, RasterYSize out0, RasterXSize out0]"
      by (auto simp: GetVirtualMemArray_def split: if_splits)
    from sum_list_take_nth_le [of i "map RasterCount rasters"] i
    have le: "?off + ?c \<le> ?T" by (simp add: take_map)
    then have band: "slice_bounds ?T (int ?off, int ?off + int ?c) = (?off, ?c)"
      using slice_bounds_inside [of "int ?off" "int ?off + int ?c" ?T] by simp
    have "pixels ?out (?off + k) y x
            = item in_view
                (bidx (shape in_view)
                   [k, y - fst (slice_bounds (RasterYSize ?out) (oy0, oy1)),
                    x - fst (slice_bounds (RasterXSize ?out) (ox0, ox1))])"
      if k: "k < ?c"
        and w: "in_window (window [RasterYSize ?out, RasterXSize ?out] [(oy0, oy1), (ox0, ox1)]) [y, x]"
      for k y x
    proof -
      from w k band
      have inw: "in_window (window (shape (GetVirtualMemArray out0))
             [(int ?off, int ?off + int ?c), (oy0, oy1), (ox0, ox1)]) [?off + k, y, x]"
        by (simp add: sh count window_Cons in_window_def written_fields)
      have "pixels ?out (?off + k) y x = item final [?off + k, y, x]"
        by (simp add: written_def final_shape sh)
      also from items [OF inw] band
      have "\<dots> = item in_view
                (bidx (shape in_view)
                   [k, y - fst (slice_bounds (RasterYSize out0) (oy0, oy1)),
                    x - fst (slice_bounds (RasterXSize out0) (ox0, ox1))])"
        by (simp add: sh count window_Cons window_def)
      finally show ?thesis by (simp add: written_fields)
    qed
    with o n v show ?thesis
      by (auto simp: pixel_bounds_from_polygon_written)
  qed
  from fs' have "fs' out_raster_path = Some ?out" by simp
  moreover from count have "RasterCount ?out = ?T" by (simp add: written_fields)
  ultimately show ?thesis using opened comb layout by blast
qed

lemma stack_images_success:
  assumes "1 < length raster_paths"
    and "gdal_Open_all fs raster_paths = Inr rasters"
    and "get_combined_polygon env rasters geometry_mode = Inr combined"
    and "create_new_image_from_polygon env combined (gt1 (GeoTransform (hd rasters)))
          (rnd env (gt5 (GeoTransform (hd rasters)) * (- 1)))
          (int (sum_list (map RasterCount rasters))) (Projection (hd rasters)) = Inr out0"
    and "stack_loop env out0 combined rasters (GetVirtualMemArray out0) 0 = Inr final"
  shows "stack_images env fs raster_paths out_raster_path geometry_mode
           = Inr (fs(out_raster_path \<mapsto> written out0 final))"
  using assms by (simp add: stack_images_def Let_def)

lemma band_files_open: "gdal_Open_all band_files [''a.tif'', ''b.tif''] = Inr [band_a, band_b]"
  by (simp add: band_files_def)

lemma band_files_combined:
  "get_combined_polygon float_env [band_a, band_b] ''intersect'' = Inr [(0, 2, - 1, 0)]"
  by (simp add: band_a_def band_b_def float_env_def box_defs engine_defs binary64_values)

lemma band_files_created:
  "create_new_image_from_polygon float_env [(0, 2, - 1, 0)]
     (gt1 (GeoTransform (hd [band_a, band_b])))
     (rnd float_env (gt5 (GeoTransform (hd [band_a, band_b])) * (- 1)))
     (int (sum_list (map RasterCount [band_a, band_b]))) (Projection (hd [band_a, band_b]))
   = Inr band_out"
  by (simp add: band_a_def band_b_def band_out_def float_env_def box_defs engine_defs
      binary64_values)

lemma band_files_bounds:
  "GeoTransform r = \<lparr>gt0 = 0, gt1 = 1, gt2 = 0, gt3 = 0, gt4 = 0, gt5 = - 1\<rparr>
   \<Longrightarrow> RasterXSize r = 2 \<Longrightarrow> RasterYSize r = 1
   \<Longrightarrow> pixel_bounds_from_polygon float_env r [(0, 2, - 1, 0)] = Inr (0, 2, 0, 1)"
  by (simp add: float_env_def box_defs get_raster_bounds_def get_poly_intersection_def
      point_to_pixel_coordinates_def point_xy_def pixel_bounds_from_polygon_def Let_def
      binary64_values)

lemma band_files_loop:
  "\<exists>final. stack_loop float_env band_out [(0, 2, - 1, 0)] [band_a, band_b]
             (GetVirtualMemArray band_out) 0 = Inr final"
  by (simp add: band_files_bounds band_a_def band_b_def band_out_def raster_at_def
      GetVirtualMemArray_def getitem_def copyto_slices_def window_def slice_bounds_def
      expand_dims0_def broadcast_shapes_def Let_def)

theorem stack_images_band_layout_witness:
  "\<exists>fs' out_raster.
      stack_images float_env band_files [''a.tif'', ''b.tif''] ''out.tif'' ''intersect'' = Inr fs'
    \<and> gdal_Open_all band_files [''a.tif'', ''b.tif''] = Inr [band_a, band_b]
    \<and> fs' ''out.tif'' = Some out_raster
    \<and> RasterCount band_a = 1 \<and> RasterCount band_b = 2
    \<and> RasterCount out_raster = 3"
proof -
  from band_files_loop obtain final where
    "stack_loop float_env band_out [(0, 2, - 1, 0)] [band_a, band_b]
       (GetVirtualMemArray band_out) 0 = Inr final"
    by blast
  from stack_images_success
         [OF _ band_files_open band_files_combined band_files_created this, of "''out.tif''"]
  have s: "stack_images float_env band_files [''a.tif'', ''b.tif''] ''out.tif'' ''intersect''
             = Inr (band_files(''out.tif'' \<mapsto> written band_out final))"
    by simp
  from stack_images_band_layout [OF s] obtain rasters out_raster where
    o: "gdal_Open_all band_files [''a.tif'', ''b.tif''] = Inr rasters"
    and f: "(band_files(''out.tif'' \<mapsto> written band_out final)) ''out.tif'' = Some out_raster"
    and c: "RasterCount out_raster = sum_list (map RasterCount rasters)"
    by blast
  from o band_files_open have r: "rasters = [band_a, band_b]" by simp
  have n: "RasterCount band_a = 1" "RasterCount band_b = 2"
    by (simp_all add: band_a_def band_b_def raster_at_def)
  with c r have "RasterCount out_raster = 3" by simp
  with s f n band_files_open show ?thesis by blast
qed

end
